theory Spec2Isabelle
  imports Main "HOL-Library.Sublist"
begin

section \<open>JavaScript values\<close>

text \<open>
  The adapter handles the events of the external agent as untyped values (\<open>any\<close>), the
  results of \<open>JSON.parse\<close>. A value is \<open>undefined\<close>, \<open>null\<close>, a boolean, a number, a
  string, an array or an object. The list of an object holds its own properties in
  enumeration order (the order of \<open>Object.keys\<close>); a lookup takes the first entry of a key.
  A string is the list of its code units, written with the characters of \<open>char\<close>.

  The program computes with no number of an event: it tests \<open>typeof\<close> and truthiness,
  and it prints and copies the number. A number is therefore held by the text that the
  runtime prints for it (\<open>Number::toString\<close>): \<open>1\<close>, \<open>-2.5\<close>, \<open>1e+21\<close>, \<open>Infinity\<close>, \<open>NaN\<close>;
  both zeros print as \<open>0\<close>. The numbers that the program makes itself are lengths, which
  print in decimal.
\<close>

type_synonym number = string

datatype jsval =
    JUndefined
  | JNull
  | JBool bool
  | JNum number
  | JStr string
  | JArr "jsval list"
  | JObj "(string \<times> jsval) list"

text \<open>
  What is thrown: \<open>new Error(message)\<close> by the source, a \<open>TypeError\<close> by the runtime
  (a property read on \<open>null\<close> or \<open>undefined\<close>, a call of something that is no function,
  a conversion of an object that has no usable \<open>toString\<close>), a \<open>SyntaxError\<close> by
  \<open>JSON.parse\<close>.
\<close>

datatype error = Error string | TypeError | SyntaxError

subsection \<open>Numbers as text\<close>

fun show_nat :: "nat \<Rightarrow> string" where
  "show_nat n =
     (if n < 10 then [char_of (48 + n)]
      else show_nat (n div 10) @ [char_of (48 + n mod 10)])"

declare show_nat.simps [simp del]

text \<open>The number of a length.\<close>

definition number_of_nat :: "nat \<Rightarrow> number" where
  "number_of_nat n = show_nat n"

subsection \<open>Truthiness, \<open>??\<close>, \<open>typeof\<close>\<close>

fun truthy :: "jsval \<Rightarrow> bool" where
  "truthy JUndefined = False"
| "truthy JNull = False"
| "truthy (JBool b) = b"
| "truthy (JNum n) = (n \<noteq> ''0'' \<and> n \<noteq> ''NaN'')"
| "truthy (JStr s) = (s \<noteq> [])"
| "truthy (JArr xs) = True"
| "truthy (JObj kvs) = True"

fun nullish :: "jsval \<Rightarrow> bool" where
  "nullish JUndefined = True"
| "nullish JNull = True"
| "nullish v = False"

text \<open>\<open>a ?? b\<close>\<close>

definition coalesce :: "jsval \<Rightarrow> jsval \<Rightarrow> jsval" where
  "coalesce a b = (if nullish a then b else a)"

fun is_string :: "jsval \<Rightarrow> bool" where
  "is_string (JStr s) = True"
| "is_string v = False"

fun is_number :: "jsval \<Rightarrow> bool" where
  "is_number (JNum n) = True"
| "is_number v = False"

fun isArray :: "jsval \<Rightarrow> bool" where
  "isArray (JArr xs) = True"
| "isArray v = False"

subsection \<open>Property reads\<close>

text \<open>
  The own properties of an array or of a string are its indices, written in decimal, and
  \<open>length\<close>. The members that a prototype adds are functions, and the program reads none
  of them from an event.
\<close>

definition indexed :: "jsval list \<Rightarrow> string \<Rightarrow> jsval" where
  "indexed xs k =
     (case find (\<lambda>i. show_nat i = k) [0..<length xs] of
        Some i \<Rightarrow> xs ! i
      | None \<Rightarrow> if k = ''length'' then JNum (number_of_nat (length xs)) else JUndefined)"

text \<open>\<open>v?.k\<close> and \<open>v?.[k]\<close>: \<open>undefined\<close> on \<open>null\<close> and \<open>undefined\<close>.\<close>

fun js_get :: "jsval \<Rightarrow> string \<Rightarrow> jsval" where
  "js_get (JObj kvs) k = (case map_of kvs k of Some v \<Rightarrow> v | None \<Rightarrow> JUndefined)"
| "js_get (JArr xs) k = indexed xs k"
| "js_get (JStr s) k = indexed (map (\<lambda>c. JStr [c]) s) k"
| "js_get v k = JUndefined"

text \<open>\<open>v.k\<close>: a \<open>TypeError\<close> on \<open>null\<close> and \<open>undefined\<close>.\<close>

definition js_prop :: "jsval \<Rightarrow> string \<Rightarrow> error + jsval" where
  "js_prop v k = (if nullish v then Inl TypeError else Inr (js_get v k))"

text \<open>\<open>Object.keys(v)[0]\<close>, for a \<open>v\<close> that is neither \<open>null\<close> nor \<open>undefined\<close>.\<close>

fun first_key :: "jsval \<Rightarrow> string option" where
  "first_key (JObj []) = None"
| "first_key (JObj ((k, v) # kvs)) = Some k"
| "first_key (JArr []) = None"
| "first_key (JArr (x # xs)) = Some ''0''"
| "first_key (JStr []) = None"
| "first_key (JStr (c # s)) = Some ''0''"
| "first_key v = None"

subsection \<open>Conversion to a string\<close>

text \<open>
  \<open>String(v)\<close> and \<open>`${v}`\<close>. An array converts as \<open>join(",")\<close> does, where \<open>null\<close> and
  \<open>undefined\<close> elements give the empty string. An object gives \<open>[object Object]\<close>
  through the inherited \<open>toString\<close>; an object parsed from JSON that has a key
  \<open>toString\<close> of its own hides it with a value that is no function, and the conversion
  throws a \<open>TypeError\<close>.
\<close>

fun intercalate :: "string \<Rightarrow> string list \<Rightarrow> string" where
  "intercalate sep [] = []"
| "intercalate sep [p] = p"
| "intercalate sep (p # q # ps) = p @ sep @ intercalate sep (q # ps)"

fun js_String :: "jsval \<Rightarrow> error + string"
  and join_parts :: "jsval list \<Rightarrow> error + string list" where
  "js_String JUndefined = Inr ''undefined''"
| "js_String JNull = Inr ''null''"
| "js_String (JBool b) = Inr (if b then ''true'' else ''false'')"
| "js_String (JNum n) = Inr n"
| "js_String (JStr s) = Inr s"
| "js_String (JArr xs) =
     (case join_parts xs of Inl e \<Rightarrow> Inl e | Inr ps \<Rightarrow> Inr (intercalate '','' ps))"
| "js_String (JObj kvs) =
     (if map_of kvs ''toString'' \<noteq> None then Inl TypeError else Inr ''[object Object]'')"
| "join_parts [] = Inr []"
| "join_parts (x # xs) =
     (case (if nullish x then Inr [] else js_String x) of
        Inl e \<Rightarrow> Inl e
      | Inr p \<Rightarrow> (case join_parts xs of Inl e \<Rightarrow> Inl e | Inr ps \<Rightarrow> Inr (p # ps)))"

text \<open>\<open>xs.join(sep)\<close>\<close>

definition js_join :: "jsval list \<Rightarrow> string \<Rightarrow> error + string" where
  "js_join xs sep = (case join_parts xs of Inl e \<Rightarrow> Inl e | Inr ps \<Rightarrow> Inr (intercalate sep ps))"

text \<open>\<open>s.trim()\<close>: the white space and line terminators among the code units below 256.\<close>

definition is_space :: "char \<Rightarrow> bool" where
  "is_space c = (of_char c \<in> {9, 10, 11, 12, 13, 32, 160 :: nat})"

definition trim :: "string \<Rightarrow> string" where
  "trim s = rev (dropWhile is_space (rev (dropWhile is_space s)))"

text \<open>
  \<open>JSON.parse(JSON.stringify(v))\<close> inside \<open>try\<close>: a copy of the value. Serialising writes
  an \<open>undefined\<close> element of an array as \<open>null\<close>, leaves out a property whose value is
  \<open>undefined\<close>, and writes a number that is not finite as \<open>null\<close>;
  \<open>JSON.stringify(undefined)\<close> is \<open>undefined\<close>, which \<open>JSON.parse\<close> rejects, and the
  \<open>catch\<close> returns \<open>undefined\<close>.
\<close>

definition finite_number :: "number \<Rightarrow> bool" where
  "finite_number n = (n \<noteq> ''Infinity'' \<and> n \<noteq> ''-Infinity'' \<and> n \<noteq> ''NaN'')"

fun json_copy :: "jsval \<Rightarrow> jsval" where
  "json_copy (JArr xs) = JArr (map (\<lambda>x. if x = JUndefined then JNull else json_copy x) xs)"
| "json_copy (JObj kvs) =
     JObj (filter (\<lambda>kv. snd kv \<noteq> JUndefined) (map (\<lambda>kv. (fst kv, json_copy (snd kv))) kvs))"
| "json_copy (JNum n) = (if finite_number n then JNum n else JNull)"
| "json_copy v = v"

definition safeJson :: "jsval \<Rightarrow> jsval" where
  "safeJson obj = json_copy obj"

section \<open>Results and notifications\<close>

text \<open>Sequencing of computations that may throw: the first throw ends the computation.\<close>

definition bind_err :: "error + 'a \<Rightarrow> ('a \<Rightarrow> error + 'b) \<Rightarrow> error + 'b" where
  "bind_err m f = (case m of Inl e \<Rightarrow> Inl e | Inr x \<Rightarrow> f x)"

text \<open>The tool kinds \<open>"read" | "edit" | "search" | "execute" | "other"\<close> and the statuses
  \<open>"pending"\<close>, \<open>"in_progress"\<close>, \<open>"completed"\<close>, \<open>"failed"\<close> of the protocol.\<close>

datatype ToolKind = Read | Edit | Search | Execute | Other

datatype ToolCallStatus = Pending | InProgress | Completed | Failed

text \<open>\<open>{ path: string; line?: number }\<close>; a \<open>line\<close> that is \<open>undefined\<close> and a missing
  \<open>line\<close> are both \<open>None\<close>.\<close>

datatype location = Location (loc_path: string) (loc_line: "number option")

text \<open>
  The content blocks of a tool call update:
  \<open>{ type: "content", content: { type: "text", text } }\<close> and
  \<open>{ type: "diff", path, oldText, newText }\<close>. The fields hold what the event held,
  whatever its type.
\<close>

datatype ToolCallContent =
    Content (content_text: jsval)
  | Diff (diff_path: jsval) (diff_oldText: jsval) (diff_newText: jsval)

datatype SessionMode = ModeDefault | ModePlan

text \<open>
  The \<open>update\<close> of a notification, by its \<open>sessionUpdate\<close> tag. A field the source leaves
  out of the object (\<open>rawOutput\<close>, \<open>locations\<close>, \<open>content\<close>) is \<open>None\<close>.
\<close>

datatype SessionUpdate =
    AgentMessageChunk (upd_text: string)
  | ToolCall (upd_toolCallId: jsval) (upd_title: string) (upd_kind: ToolKind)
      (upd_status: ToolCallStatus) (upd_rawInput: jsval) (upd_locations: "location list option")
  | ToolCallUpdate (upd_toolCallId: jsval) (upd_status: ToolCallStatus)
      (upd_rawOutput: "jsval option") (upd_locations: "location list option")
      (upd_content: "ToolCallContent list option")
  | CurrentModeUpdate (upd_currentModeId: SessionMode)
  | AvailableCommandsUpdate

datatype SessionNotification =
  SessionNotification (note_sessionId: string) (note_update: SessionUpdate)

section \<open>Tool-event classifier\<close>

text \<open>\<open>cond ? `${lead}${v}` : otherwise\<close>\<close>

definition labelled :: "string \<Rightarrow> jsval \<Rightarrow> string \<Rightarrow> error + string" where
  "labelled lead v otherwise =
     (if truthy v then bind_err (js_String v) (\<lambda>s. Inr (lead @ s)) else Inr otherwise)"

definition buildToolTitle :: "string \<Rightarrow> jsval \<Rightarrow> error + string" where
  "buildToolTitle kind args =
     (if kind = ''readToolCall'' then labelled ''Read '' (js_get args ''path'') ''Read''
      else if kind = ''writeToolCall'' then labelled ''Write '' (js_get args ''path'') ''Write''
      else if kind = ''grepToolCall'' then
        (if truthy (js_get args ''pattern'') \<and> truthy (js_get args ''path'') then
           bind_err (js_String (js_get args ''path'')) (\<lambda>p.
           bind_err (js_String (js_get args ''pattern'')) (\<lambda>q.
           Inr (''Search '' @ p @ '' for '' @ q)))
         else labelled ''Search for '' (js_get args ''pattern'') ''Search'')
      else if kind = ''globToolCall'' then labelled ''Glob '' (js_get args ''pattern'') ''Glob''
      else if kind = ''bashToolCall'' \<or> kind = ''shellToolCall'' then
        bind_err
          (if \<not> nullish (js_get args ''command'') then Inr (js_get args ''command'')
           else if \<not> nullish (js_get args ''cmd'') then Inr (js_get args ''cmd'')
           else (case js_get args ''commands'' of
                   JArr xs \<Rightarrow> bind_err (js_join xs '' && '') (\<lambda>s. Inr (JStr s))
                 | _ \<Rightarrow> Inr JUndefined))
          (\<lambda>cmd. if truthy cmd then bind_err (js_String cmd) (\<lambda>s. Inr (''`'' @ s @ ''`''))
                  else Inr ''Terminal'')
      else Inr kind)"

definition inferToolKind :: "string \<Rightarrow> ToolKind" where
  "inferToolKind kind =
     (if kind = ''readToolCall'' then Read
      else if kind = ''writeToolCall'' then Edit
      else if kind = ''grepToolCall'' \<or> kind = ''globToolCall'' then Search
      else if kind = ''bashToolCall'' \<or> kind = ''shellToolCall'' then Execute
      else Other)"

text \<open>\<open>typeof v.line === "number" ? v.line : undefined\<close>\<close>

definition line_of :: "jsval \<Rightarrow> number option" where
  "line_of v = (case js_get v ''line'' of JNum n \<Rightarrow> Some n | _ \<Rightarrow> None)"

text \<open>\<open>if (v && typeof v.path === "string") locs.push({ path: v.path, line: ... })\<close>\<close>

definition object_loc :: "jsval \<Rightarrow> location list" where
  "object_loc v =
     (if truthy v then (case js_get v ''path'' of JStr p \<Rightarrow> [Location p (line_of v)] | _ \<Rightarrow> [])
      else [])"

text \<open>The body of the loop over \<open>args.paths\<close> and over \<open>result.files\<close>: the string first.\<close>

definition string_or_object_loc :: "jsval \<Rightarrow> location list" where
  "string_or_object_loc p = (case p of JStr s \<Rightarrow> [Location s None] | _ \<Rightarrow> object_loc p)"

text \<open>The body of the loop over \<open>result.matches\<close>: the object first.\<close>

definition object_or_string_loc :: "jsval \<Rightarrow> location list" where
  "object_or_string_loc m =
     (if truthy m \<and> is_string (js_get m ''path'') then object_loc m
      else (case m of JStr s \<Rightarrow> [Location s None] | _ \<Rightarrow> []))"

text \<open>\<open>if (typeof v?.path === "string") locs.push({ path: v.path, line: ... })\<close>\<close>

definition own_loc :: "jsval \<Rightarrow> location list" where
  "own_loc v = (case js_get v ''path'' of JStr p \<Rightarrow> [Location p (line_of v)] | _ \<Rightarrow> [])"

text \<open>\<open>locs.length ? locs : undefined\<close>\<close>

definition nonempty :: "location list \<Rightarrow> location list option" where
  "nonempty locs = (if locs \<noteq> [] then Some locs else None)"

definition toLocationsFromArgs :: "jsval \<Rightarrow> location list option" where
  "toLocationsFromArgs args =
     nonempty
       (own_loc args @
        (case js_get args ''paths'' of
           JArr ps \<Rightarrow> concat (map string_or_object_loc ps)
         | _ \<Rightarrow> []))"

definition toLocationsFromResult :: "jsval \<Rightarrow> location list option" where
  "toLocationsFromResult result =
     (if \<not> truthy result then None
      else nonempty
        ((case js_get result ''matches'' of
            JArr ms \<Rightarrow> concat (map object_or_string_loc ms)
          | _ \<Rightarrow> []) @
         (case js_get result ''files'' of
            JArr fs \<Rightarrow> concat (map string_or_object_loc fs)
          | _ \<Rightarrow> []) @
         own_loc result))"

text \<open>\<open>args?.pattern ? String(args.pattern) : "pattern"\<close>\<close>

definition pattern_of :: "jsval \<Rightarrow> error + string" where
  "pattern_of args = labelled [] (js_get args ''pattern'') ''pattern''"

text \<open>The whole body is inside \<open>try\<close>: a throw gives \<open>undefined\<close>.\<close>

definition summarizeSearchResult :: "string option \<Rightarrow> jsval \<Rightarrow> jsval \<Rightarrow> string option" where
  "summarizeSearchResult toolKindKey args result =
     (if toolKindKey = Some ''grepToolCall'' then
        (let matches = (case js_get result ''matches'' of JArr ms \<Rightarrow> ms | _ \<Rightarrow> []);
             count = (case js_get result ''count'' of
                      JNum n \<Rightarrow> n
                    | _ \<Rightarrow> number_of_nat (length matches))
         in case pattern_of args of
              Inl e \<Rightarrow> None
            | Inr pat \<Rightarrow> Some (''Found '' @ count @ '' match(es) for '' @ pat))
      else if toolKindKey = Some ''globToolCall'' then
        (let files = (case js_get result ''files'' of JArr fs \<Rightarrow> fs | _ \<Rightarrow> []);
             count = number_of_nat (length files)
         in case pattern_of args of
              Inl e \<Rightarrow> None
            | Inr pat \<Rightarrow> Some (''Found '' @ count @ '' file(s) matching '' @ pat))
      else None)"

section \<open>Event mapper\<close>

text \<open>\<open>evt?.message?.content?.[0]?.text ?? ""\<close>\<close>

definition assistant_text :: "jsval \<Rightarrow> jsval" where
  "assistant_text evt =
     coalesce (js_get (js_get (js_get (js_get evt ''message'') ''content'') ''0'') ''text'')
       (JStr [])"

text \<open>
  The \<open>"assistant"\<close> case. \<open>lastAssistantText\<close> is a string, so a \<open>text\<close> that is no string
  differs from it, and the call of its \<open>startsWith\<close>, which no such value has as a
  function, throws.
\<close>

definition assistant_notes :: "string \<Rightarrow> jsval \<Rightarrow> string \<Rightarrow> error + SessionNotification list" where
  "assistant_notes sessionId evt lastAssistantText =
     (let text = assistant_text evt in
      if truthy text \<and> text \<noteq> JStr lastAssistantText then
        (case text of
           JStr t \<Rightarrow>
             (let delta = (if prefix lastAssistantText t then drop (length lastAssistantText) t
                           else t)
              in if delta \<noteq> [] then Inr [SessionNotification sessionId (AgentMessageChunk delta)]
                 else Inr [])
         | _ \<Rightarrow> Inl TypeError)
      else Inr [])"

text \<open>\<open>evt.call_id ?? evt.tool_call_id ?? ""\<close>\<close>

definition call_id :: "jsval \<Rightarrow> jsval" where
  "call_id evt = coalesce (js_get evt ''call_id'') (coalesce (js_get evt ''tool_call_id'') (JStr []))"

text \<open>\<open>evt.tool_call ? Object.keys(evt.tool_call)[0] : undefined\<close>\<close>

definition tool_kind_key :: "jsval \<Rightarrow> string option" where
  "tool_kind_key evt =
     (if truthy (js_get evt ''tool_call'') then first_key (js_get evt ''tool_call'') else None)"

text \<open>\<open>toolKindKey ? evt.tool_call[toolKindKey] : undefined\<close>: the empty key is falsy.\<close>

definition tool_of :: "jsval \<Rightarrow> jsval" where
  "tool_of evt =
     (case tool_kind_key evt of
        None \<Rightarrow> JUndefined
      | Some k \<Rightarrow> if k \<noteq> [] then js_get (js_get evt ''tool_call'') k else JUndefined)"

text \<open>\<open>tool?.args ?? {}\<close>\<close>

definition tool_args :: "jsval \<Rightarrow> jsval" where
  "tool_args evt = coalesce (js_get (tool_of evt) ''args'') (JObj [])"

text \<open>\<open>toolKindKey || "Other"\<close>\<close>

definition kind_or_Other :: "string option \<Rightarrow> string" where
  "kind_or_Other toolKindKey =
     (case toolKindKey of None \<Rightarrow> ''Other'' | Some k \<Rightarrow> if k \<noteq> [] then k else ''Other'')"

text \<open>The \<open>started\<close> branch.\<close>

definition started_notes :: "string \<Rightarrow> jsval \<Rightarrow> error + SessionNotification list" where
  "started_notes sessionId evt =
     (let callId = call_id evt; toolKindKey = tool_kind_key evt; args = tool_args evt in
      bind_err (buildToolTitle (kind_or_Other toolKindKey) args) (\<lambda>title.
        Inr [SessionNotification sessionId
               (ToolCall callId title (inferToolKind (kind_or_Other toolKindKey)) Pending
                  (safeJson args) (toLocationsFromArgs args)),
             SessionNotification sessionId
               (ToolCallUpdate callId InProgress None None None)]))"

text \<open>\<open>tool?.result?.success ?? tool?.result?.error ?? tool?.result\<close>\<close>

definition tool_result :: "jsval \<Rightarrow> jsval" where
  "tool_result evt =
     (let r = js_get (tool_of evt) ''result'' in
      coalesce (js_get r ''success'') (coalesce (js_get r ''error'') r))"

text \<open>\<open>!!tool?.result?.error\<close>\<close>

definition isError :: "jsval \<Rightarrow> bool" where
  "isError evt = truthy (js_get (js_get (tool_of evt) ''result'') ''error'')"

text \<open>The text of the block of a shell tool.\<close>

definition shell_text :: "jsval \<Rightarrow> error + string" where
  "shell_text result =
     (let output = coalesce (js_get result ''output'') (coalesce (js_get result ''stdout'') (JStr []));
          exit = (case js_get result ''exitCode'' of JNum n \<Rightarrow> Some n | _ \<Rightarrow> None)
      in bind_err (js_String output) (\<lambda>outText.
           let normalized = (if length (trim outText) = 0 then ''(no output)'' else outText);
               text = (case exit of
                         Some n \<Rightarrow> ''Exit code: '' @ n @ [CHR 0x0A]
                       | None \<Rightarrow> []) @ normalized
           in Inr (''```'' @ [CHR 0x0A] @ text @ [CHR 0x0A] @ ''```'')))"

text \<open>"attach content for common tools": the \<open>content\<close> of the update, if any.\<close>

definition completed_content ::
  "string option \<Rightarrow> jsval \<Rightarrow> jsval \<Rightarrow> error + ToolCallContent list option" where
  "completed_content toolKindKey args result =
     (if toolKindKey = Some ''readToolCall''
         \<and> truthy (coalesce (js_get result ''content'') (js_get args ''content'')) then
        bind_err
          (js_String (coalesce (js_get result ''content'')
                        (coalesce (js_get args ''content'') (JStr []))))
          (\<lambda>contentText. Inr (Some [Content (JStr (take 20000 contentText))]))
      else if toolKindKey = Some ''writeToolCall'' then
        (let path = js_get args ''path'';
             newText = coalesce (js_get result ''newText'')
                         (coalesce (js_get args ''fileText'')
                            (coalesce (js_get args ''newText'') (JStr [])));
             oldText = coalesce (js_get result ''oldText'') JNull
         in Inr (Some (if truthy path then [Diff path oldText newText] else [Content newText])))
      else if toolKindKey = Some ''bashToolCall'' \<or> toolKindKey = Some ''shellToolCall'' then
        bind_err (shell_text result) (\<lambda>text. Inr (Some [Content (JStr text)]))
      else if toolKindKey = Some ''grepToolCall'' \<or> toolKindKey = Some ''globToolCall'' then
        (case summarizeSearchResult toolKindKey args result of
           None \<Rightarrow> Inr None
         | Some summary \<Rightarrow> if summary \<noteq> [] then Inr (Some [Content (JStr summary)]) else Inr None)
      else Inr None)"

text \<open>\<open>toLocationsFromResult(result) ?? toLocationsFromArgs(args)\<close>\<close>

definition completed_locations :: "jsval \<Rightarrow> jsval \<Rightarrow> location list option" where
  "completed_locations result args =
     (case toLocationsFromResult result of None \<Rightarrow> toLocationsFromArgs args | Some locs \<Rightarrow> Some locs)"

text \<open>The \<open>completed\<close> branch.\<close>

definition completed_notes :: "string \<Rightarrow> jsval \<Rightarrow> error + SessionNotification list" where
  "completed_notes sessionId evt =
     (let callId = call_id evt; toolKindKey = tool_kind_key evt; args = tool_args evt;
          result = tool_result evt
      in bind_err (completed_content toolKindKey args result) (\<lambda>content.
           Inr [SessionNotification sessionId
                  (ToolCallUpdate callId (if isError evt then Failed else Completed)
                     (Some (safeJson result)) (completed_locations result args) content)]))"

text \<open>
  \<open>mapCursorEventToAcp(sessionId, evt, lastAssistantText)\<close>. The array \<open>out\<close> is returned
  when no step throws; \<open>evt.type\<close> throws on \<open>null\<close>. Past the \<open>switch\<close> head \<open>evt\<close> is
  neither \<open>null\<close> nor \<open>undefined\<close>, and \<open>evt.k\<close> is \<open>js_get evt k\<close>.
\<close>

definition mapCursorEventToAcp ::
  "string \<Rightarrow> jsval \<Rightarrow> string \<Rightarrow> error + SessionNotification list" where
  "mapCursorEventToAcp sessionId evt lastAssistantText =
     bind_err (js_prop evt ''type'') (\<lambda>ty.
       if ty = JStr ''user'' then Inr []
       else if ty = JStr ''assistant'' then assistant_notes sessionId evt lastAssistantText
       else if ty = JStr ''tool_call'' then
         (if js_get evt ''subtype'' = JStr ''started'' then started_notes sessionId evt
          else if js_get evt ''subtype'' = JStr ''completed'' then completed_notes sessionId evt
          else Inr [])
       else Inr [])"

section \<open>Sessions\<close>

text \<open>
  A spawned process, as the adapter sees it: its handle and the flag \<open>killed\<close> that the
  runtime keeps. \<open>running\<close> is \<open>None\<close> when the field is \<open>undefined\<close> or \<open>null\<close>.
  \<open>resumeId\<close> holds whatever an event gave as \<open>session_id\<close>, and \<open>undefined\<close> before.
\<close>

record ChildProcess =
  pid :: nat
  killed :: bool

record SessionState =
  cwd :: "string option"
  cancelled :: bool
  resumeId :: jsval
  modeId :: SessionMode
  running :: "ChildProcess option"

datatype StopReason = EndTurn | Cancelled | Refusal

text \<open>
  The agent: the registry \<open>sessions\<close> (the own properties of the object) and what the
  agent has done to the outside, each in the order of the calls: the notifications given
  to \<open>client.sessionUpdate\<close>, the arguments and working directory given to \<open>spawn\<close>
  (\<open>None\<close> for \<open>process.cwd()\<close>), the signals given to \<open>child.kill\<close>, and the signals
  that a timer is still to send.
\<close>

record CursorAcpAgent =
  sessions :: "string \<rightharpoonup> SessionState"
  client :: "SessionNotification list"
  spawned :: "(jsval list \<times> string option) list"
  signals :: "(nat \<times> string) list"
  timers :: "(nat \<times> string) list"

text \<open>
  The registry is a plain object, and \<open>this.sessions[id]\<close> also finds what
  \<open>Object.prototype\<close> gives every object. Such a member is no session, but it is truthy
  and passes the test \<open>if (!session)\<close>. What a verb does with it is left out of the model:
  the verbs return \<open>None\<close> there.
\<close>

definition prototype_names :: "string list" where
  "prototype_names =
     [''__proto__'', ''constructor'', ''hasOwnProperty'', ''isPrototypeOf'',
      ''propertyIsEnumerable'', ''toLocaleString'', ''toString'', ''valueOf'',
      ''__defineGetter__'', ''__defineSetter__'', ''__lookupGetter__'', ''__lookupSetter__'']"

datatype registry_entry = Found SessionState | Inherited | Missing

definition lookup_session :: "CursorAcpAgent \<Rightarrow> string \<Rightarrow> registry_entry" where
  "lookup_session a sid =
     (case sessions a sid of
        Some s \<Rightarrow> Found s
      | None \<Rightarrow> if sid \<in> set prototype_names then Inherited else Missing)"

text \<open>
  A write to the session object that a handler of a turn holds. The handler exists once
  the lookup of \<open>prompt\<close> has succeeded, and no entry of the registry is ever removed or
  replaced, so the object is the entry of \<open>sid\<close>.
\<close>

definition update_session ::
  "string \<Rightarrow> (SessionState \<Rightarrow> SessionState) \<Rightarrow> CursorAcpAgent \<Rightarrow> CursorAcpAgent" where
  "update_session sid f a =
     (case sessions a sid of
        None \<Rightarrow> a
      | Some s \<Rightarrow> a\<lparr>sessions := (sessions a)(sid \<mapsto> f s)\<rparr>)"

text \<open>\<open>newSession\<close>, with the identifier that \<open>cryptoRandomId\<close> returned. The notification
  of the empty command list is sent by a timer, after the response.\<close>

definition newSession :: "CursorAcpAgent \<Rightarrow> string \<Rightarrow> string option \<Rightarrow> CursorAcpAgent" where
  "newSession a sid dir =
     a\<lparr>sessions := (sessions a)(sid \<mapsto>
          \<lparr>cwd = dir, cancelled = False, resumeId = JUndefined, modeId = ModeDefault,
           running = None\<rparr>)\<rparr>"

definition newSession_timer :: "CursorAcpAgent \<Rightarrow> string \<Rightarrow> CursorAcpAgent" where
  "newSession_timer a sid =
     a\<lparr>client := client a @ [SessionNotification sid AvailableCommandsUpdate]\<rparr>"

subsection \<open>Starting a turn\<close>

text \<open>The chunks of a prompt: text, an embedded resource (with its text, or a blob
  without), a resource link, and the kinds that \<open>concatPromptChunks\<close> passes over.\<close>

datatype ContentBlock =
    TextChunk string
  | ResourceChunk "string option"
  | ResourceLinkChunk string
  | OtherChunk

fun chunk_parts :: "ContentBlock \<Rightarrow> string list" where
  "chunk_parts (TextChunk t) = [t]"
| "chunk_parts (ResourceChunk (Some t)) = [t]"
| "chunk_parts (ResourceChunk None) = []"
| "chunk_parts (ResourceLinkChunk uri) = [uri]"
| "chunk_parts OtherChunk = []"

definition concatPromptChunks :: "ContentBlock list \<Rightarrow> string" where
  "concatPromptChunks chunks = intercalate [CHR 0x0A, CHR 0x0A] (concat (map chunk_parts chunks))"

definition planPrefix :: "SessionState \<Rightarrow> string" where
  "planPrefix session =
     (if modeId session = ModePlan
      then ''[PLAN MODE] Do not edit files or run commands. Analyze only.'' @ [CHR 0x0A, CHR 0x0A]
      else [])"

text \<open>The arguments \<open>args\<close> that \<open>prompt\<close> gives to \<open>spawn\<close>.\<close>

definition spawn_args :: "SessionState \<Rightarrow> ContentBlock list \<Rightarrow> jsval list" where
  "spawn_args session chunks =
     (let initialPrompt = planPrefix session @ concatPromptChunks chunks in
      [JStr ''--print'', JStr ''--output-format'', JStr ''stream-json'',
       JStr ''--stream-partial-output''] @
      (if truthy (resumeId session) then [JStr ''--resume'', resumeId session] else []) @
      (if initialPrompt \<noteq> [] \<and> length initialPrompt > 0 then [JStr initialPrompt] else []))"

text \<open>\<open>cwd: session.cwd || process.cwd()\<close>: the empty path is falsy.\<close>

definition spawn_cwd :: "SessionState \<Rightarrow> string option" where
  "spawn_cwd session = (case cwd session of Some d \<Rightarrow> if d \<noteq> [] then Some d else None | None \<Rightarrow> None)"

text \<open>
  \<open>prompt\<close> up to the registration of the child: the lookup, the reset of \<open>cancelled\<close>,
  the arguments, the call of \<open>spawn\<close> and \<open>session.running = child\<close>. What
  \<open>child_process.spawn\<close> does with the arguments is the runtime's and comes as the
  parameter \<open>spawn\<close>: it returns the child, or it throws at once (an argument that is no
  string or that holds a NUL, a working directory it refuses). The call is not guarded:
  a throw ends \<open>prompt\<close> after the reset of \<open>cancelled\<close> and before a child is
  registered.
\<close>

definition prompt_begin ::
  "(jsval list \<Rightarrow> string option \<Rightarrow> error + ChildProcess) \<Rightarrow> CursorAcpAgent \<Rightarrow> string
     \<Rightarrow> ContentBlock list \<Rightarrow> (CursorAcpAgent \<times> (error + unit)) option" where
  "prompt_begin spawn a sid chunks =
     (case lookup_session a sid of
        Missing \<Rightarrow> Some (a, Inl (Error ''Session not found''))
      | Inherited \<Rightarrow> None
      | Found session \<Rightarrow>
          (let session1 = session\<lparr>cancelled := False\<rparr>;
               args = spawn_args session1 chunks;
               a1 = a\<lparr>sessions := (sessions a)(sid \<mapsto> session1),
                      spawned := spawned a @ [(args, spawn_cwd session1)]\<rparr>
           in case spawn args (spawn_cwd session1) of
                Inl e \<Rightarrow> Some (a1, Inl e)
              | Inr child \<Rightarrow>
                  Some (a1\<lparr>sessions := (sessions a)(sid \<mapsto> session1\<lparr>running := Some child\<rparr>)\<rparr>,
                        Inr ())))"

text \<open>
  The handler of the error stream of the child. The two tests are \<open>/login/i\<close> and
  \<open>/cursor-agent/i\<close>: a match anywhere in the chunk, in either case of the letters.
\<close>

definition to_lower :: "char \<Rightarrow> char" where
  "to_lower c =
     (if 65 \<le> (of_char c :: nat) \<and> (of_char c :: nat) \<le> 90 then char_of (of_char c + 32 :: nat)
      else c)"

fun contains :: "string \<Rightarrow> string \<Rightarrow> bool" where
  "contains pat [] = (pat = [])"
| "contains pat (c # s) = (prefix pat (c # s) \<or> contains pat s)"

definition on_stderr :: "string \<Rightarrow> string \<Rightarrow> CursorAcpAgent \<Rightarrow> CursorAcpAgent" where
  "on_stderr sid s a =
     (if contains ''login'' (map to_lower s) \<and> contains ''cursor-agent'' (map to_lower s) then
        a\<lparr>client := client a @
          [SessionNotification sid
             (AgentMessageChunk
                (''Authentication required. Please run `cursor-agent login` in your terminal, ''
                 @ ''then retry the prompt.''))]\<rparr>
      else a)"

subsection \<open>The line handler\<close>

text \<open>The variables of the closure of one turn.\<close>

record Turn =
  stopReason :: "StopReason option"
  lastAssistantText :: string

definition new_turn :: Turn where
  "new_turn = \<lparr>stopReason = None, lastAssistantText = []\<rparr>"

text \<open>
  \<open>if (evt.type === "assistant") { ...; if (text) lastAssistantText = text; }\<close>.
  The mapper has returned when this runs, so a truthy \<open>text\<close> is a string here.
\<close>

definition track_text :: "jsval \<Rightarrow> string \<Rightarrow> string" where
  "track_text evt last_text =
     (if js_get evt ''type'' = JStr ''assistant'' then
        (case assistant_text evt of
           JStr t \<Rightarrow> if t \<noteq> [] then t else last_text
         | _ \<Rightarrow> last_text)
      else last_text)"

text \<open>\<open>if (evt.type === "result") { ... }\<close>\<close>

definition track_result :: "jsval \<Rightarrow> StopReason option \<Rightarrow> StopReason option" where
  "track_result evt reason =
     (if js_get evt ''type'' = JStr ''result'' then
        (if js_get evt ''subtype'' = JStr ''success'' then Some EndTurn
         else if js_get evt ''subtype'' = JStr ''cancelled'' then Some Cancelled
         else if js_get evt ''subtype'' = JStr ''error'' \<or> js_get evt ''subtype'' = JStr ''failure''
                 \<or> js_get evt ''subtype'' = JStr ''refused'' then Some Refusal
         else reason)
      else reason)"

text \<open>\<open>if (evt.session_id && !session.resumeId) session.resumeId = evt.session_id;\<close>\<close>

definition track_resume :: "jsval \<Rightarrow> SessionState \<Rightarrow> SessionState" where
  "track_resume evt session =
     (if truthy (js_get evt ''session_id'') \<and> \<not> truthy (resumeId session)
      then session\<lparr>resumeId := js_get evt ''session_id''\<rparr>
      else session)"

text \<open>
  The body of \<open>try\<close> after \<open>JSON.parse\<close>, with the \<open>catch\<close>. Only the call of the mapper
  can throw, and it comes before every effect: a throw leaves everything as it was.
\<close>

definition on_event :: "string \<Rightarrow> jsval \<Rightarrow> CursorAcpAgent \<times> Turn \<Rightarrow> CursorAcpAgent \<times> Turn" where
  "on_event sid evt st =
     (case mapCursorEventToAcp sid evt (lastAssistantText (snd st)) of
        Inl e \<Rightarrow> st
      | Inr notes \<Rightarrow>
          (update_session sid (track_resume evt) ((fst st)\<lparr>client := client (fst st) @ notes\<rparr>),
           (snd st)\<lparr>lastAssistantText := track_text evt (lastAssistantText (snd st)),
                    stopReason := track_result evt (stopReason (snd st))\<rparr>))"

text \<open>\<open>rl.on("line", ...)\<close>, with \<open>JSON.parse\<close> as \<open>parse\<close>.\<close>

definition on_line ::
  "(string \<Rightarrow> error + jsval) \<Rightarrow> string \<Rightarrow> string \<Rightarrow> CursorAcpAgent \<times> Turn \<Rightarrow> CursorAcpAgent \<times> Turn" where
  "on_line parse sid line st =
     (case parse line of Inl e \<Rightarrow> st | Inr evt \<Rightarrow> on_event sid evt st)"

definition run_events :: "string \<Rightarrow> jsval list \<Rightarrow> CursorAcpAgent \<times> Turn \<Rightarrow> CursorAcpAgent \<times> Turn" where
  "run_events sid evts st = fold (on_event sid) evts st"

definition run_lines ::
  "(string \<Rightarrow> error + jsval) \<Rightarrow> string \<Rightarrow> string list \<Rightarrow> CursorAcpAgent \<times> Turn
     \<Rightarrow> CursorAcpAgent \<times> Turn" where
  "run_lines parse sid lines st = fold (on_line parse sid) lines st"

subsection \<open>The end of a turn\<close>

text \<open>\<open>finalize\<close>, with the exit code that the \<open>exit\<close> handler stored (\<open>None\<close> for
  \<open>null\<close>). The value is the stop reason of the response.\<close>

definition finalize ::
  "string \<Rightarrow> int option \<Rightarrow> CursorAcpAgent \<times> Turn \<Rightarrow> CursorAcpAgent \<times> StopReason" where
  "finalize sid exitCode st =
     (let a = update_session sid (\<lambda>s. s\<lparr>running := None\<rparr>) (fst st) in
      (a,
       if (case sessions a sid of Some s \<Rightarrow> cancelled s | None \<Rightarrow> False) then Cancelled
       else (case stopReason (snd st) of
               Some r \<Rightarrow> r
             | None \<Rightarrow> if exitCode = Some 0 then EndTurn else Refusal)))"

subsection \<open>The other verbs\<close>

text \<open>
  \<open>child.kill(signal)\<close> is the runtime's and comes as the parameter \<open>kill\<close>: for a
  process and a signal it throws, or it returns whether the signal was delivered, and a
  delivered signal sets the flag \<open>killed\<close> of the child.

  \<open>cancel\<close> sets the flag of the session. For a running child whose \<open>killed\<close> is not
  set it sends \<open>SIGTERM\<close> and then starts the timer that sends \<open>SIGKILL\<close> a second
  later; a throw of \<open>kill\<close> is caught, and no timer is started then.
\<close>

definition cancel ::
  "(nat \<Rightarrow> string \<Rightarrow> error + bool) \<Rightarrow> CursorAcpAgent \<Rightarrow> string
     \<Rightarrow> (CursorAcpAgent \<times> (error + unit)) option" where
  "cancel kill a sid =
     (case lookup_session a sid of
        Missing \<Rightarrow> Some (a, Inl (Error ''Session not found''))
      | Inherited \<Rightarrow> None
      | Found session \<Rightarrow>
          (let session1 = session\<lparr>cancelled := True\<rparr> in
           case running session1 of
             None \<Rightarrow> Some (a\<lparr>sessions := (sessions a)(sid \<mapsto> session1)\<rparr>, Inr ())
           | Some child \<Rightarrow>
               if killed child then Some (a\<lparr>sessions := (sessions a)(sid \<mapsto> session1)\<rparr>, Inr ())
               else
                 (case kill (pid child) ''SIGTERM'' of
                    Inl e \<Rightarrow>
                      Some (a\<lparr>sessions := (sessions a)(sid \<mapsto> session1),
                              signals := signals a @ [(pid child, ''SIGTERM'')]\<rparr>,
                            Inr ())
                  | Inr delivered \<Rightarrow>
                      Some (a\<lparr>sessions := (sessions a)(sid \<mapsto>
                                session1\<lparr>running := Some (child\<lparr>killed := delivered\<rparr>)\<rparr>),
                              signals := signals a @ [(pid child, ''SIGTERM'')],
                              timers := timers a @ [(pid child, ''SIGKILL'')]\<rparr>,
                            Inr ()))))"

text \<open>
  The timer of \<open>cancel\<close>, when it fires: \<open>child.kill("SIGKILL")\<close>, outside every \<open>try\<close>.
  The child of the timer is the one that ran when \<open>cancel\<close> was called; a session that
  still holds it sees its flag.
\<close>

definition mark_killed :: "nat \<Rightarrow> SessionState \<Rightarrow> SessionState" where
  "mark_killed p session =
     (case running session of
        Some child \<Rightarrow>
          if pid child = p then session\<lparr>running := Some (child\<lparr>killed := True\<rparr>)\<rparr> else session
      | None \<Rightarrow> session)"

definition kill_timer ::
  "(nat \<Rightarrow> string \<Rightarrow> error + bool) \<Rightarrow> CursorAcpAgent \<Rightarrow> CursorAcpAgent \<times> (error + unit)" where
  "kill_timer kill a =
     (case timers a of
        [] \<Rightarrow> (a, Inr ())
      | (p, signal) # rest \<Rightarrow>
          (let a1 = a\<lparr>timers := rest, signals := signals a @ [(p, signal)]\<rparr> in
           case kill p signal of
             Inl e \<Rightarrow> (a1, Inl e)
           | Inr delivered \<Rightarrow>
               (if delivered
                then a1\<lparr>sessions := (\<lambda>k. map_option (mark_killed p) (sessions a k))\<rparr>
                else a1,
                Inr ())))"

text \<open>\<open>setSessionModel\<close> returns at once: it reads neither its parameter nor the registry.\<close>

definition setSessionModel :: "CursorAcpAgent \<Rightarrow> string \<Rightarrow> CursorAcpAgent \<times> (error + unit)" where
  "setSessionModel a sid = (a, Inr ())"

definition setSessionMode ::
  "CursorAcpAgent \<Rightarrow> string \<Rightarrow> string \<Rightarrow> (CursorAcpAgent \<times> (error + unit)) option" where
  "setSessionMode a sid mode =
     (case lookup_session a sid of
        Missing \<Rightarrow> Some (a, Inl (Error ''Session not found''))
      | Inherited \<Rightarrow> None
      | Found session \<Rightarrow>
          (if mode = ''default'' \<or> mode = ''plan'' then
             (let m = (if mode = ''default'' then ModeDefault else ModePlan) in
              Some (a\<lparr>sessions := (sessions a)(sid \<mapsto> session\<lparr>modeId := m\<rparr>),
                      client := client a @ [SessionNotification sid (CurrentModeUpdate m)]\<rparr>,
                    Inr ()))
           else Some (a, Inl (Error ''Invalid Mode''))))"

section \<open>Predicates and examples for the statements\<close>

subsection \<open>Where the mapper throws\<close>

text \<open>
  A value that \<open>String\<close> cannot convert: an object with a key \<open>toString\<close> of its own, or
  an array with such an element that is neither \<open>null\<close> nor \<open>undefined\<close>.
\<close>

fun unprintable :: "jsval \<Rightarrow> bool" where
  "unprintable (JObj kvs) = (map_of kvs ''toString'' \<noteq> None)"
| "unprintable (JArr xs) = list_ex (\<lambda>x. \<not> nullish x \<and> unprintable x) xs"
| "unprintable v = False"

text \<open>The value that the title of a shell tool shows, before the join of \<open>commands\<close>.\<close>

definition shown_command :: "jsval \<Rightarrow> jsval" where
  "shown_command args =
     (if \<not> nullish (js_get args ''command'') then js_get args ''command''
      else if \<not> nullish (js_get args ''cmd'') then js_get args ''cmd''
      else if isArray (js_get args ''commands'') then js_get args ''commands''
      else JUndefined)"

text \<open>When \<open>buildToolTitle\<close> throws, by the kind of the tool; lemma
  \<open>buildToolTitle_throws\<close> proves it.\<close>

definition title_throws :: "string \<Rightarrow> jsval \<Rightarrow> bool" where
  "title_throws kind args =
     (if kind = ''readToolCall'' \<or> kind = ''writeToolCall'' then unprintable (js_get args ''path'')
      else if kind = ''grepToolCall'' then
        truthy (js_get args ''pattern'')
        \<and> (unprintable (js_get args ''pattern'') \<or> unprintable (js_get args ''path''))
      else if kind = ''globToolCall'' then unprintable (js_get args ''pattern'')
      else if kind = ''bashToolCall'' \<or> kind = ''shellToolCall'' then unprintable (shown_command args)
      else False)"

text \<open>When the content of a \<open>completed\<close> update throws: the text of a read tool and
  the output of a shell tool are converted; lemma \<open>completed_content_throws\<close> proves it.\<close>

definition content_throws :: "string option \<Rightarrow> jsval \<Rightarrow> jsval \<Rightarrow> bool" where
  "content_throws toolKindKey args result =
     (if toolKindKey = Some ''readToolCall'' then
        unprintable (coalesce (js_get result ''content'') (js_get args ''content''))
      else if toolKindKey = Some ''bashToolCall'' \<or> toolKindKey = Some ''shellToolCall'' then
        unprintable (coalesce (js_get result ''output'') (js_get result ''stdout''))
      else False)"

text \<open>When \<open>mapCursorEventToAcp\<close> throws; lemma \<open>mapper_throws_iff\<close> proves it.\<close>

definition mapper_throws :: "jsval \<Rightarrow> bool" where
  "mapper_throws evt =
     (nullish evt
      \<or> (js_get evt ''type'' = JStr ''assistant''
          \<and> truthy (assistant_text evt) \<and> \<not> is_string (assistant_text evt))
      \<or> (js_get evt ''type'' = JStr ''tool_call'' \<and> js_get evt ''subtype'' = JStr ''started''
          \<and> title_throws (kind_or_Other (tool_kind_key evt)) (tool_args evt))
      \<or> (js_get evt ''type'' = JStr ''tool_call'' \<and> js_get evt ''subtype'' = JStr ''completed''
          \<and> content_throws (tool_kind_key evt) (tool_args evt) (tool_result evt)))"

subsection \<open>Tool call events\<close>

text \<open>The start of a read of \<open>a.txt\<close>, and the same with an object as the path.\<close>

definition read_started :: jsval where
  "read_started =
     JObj [(''type'', JStr ''tool_call''), (''subtype'', JStr ''started''),
           (''call_id'', JStr ''c1''),
           (''tool_call'', JObj [(''readToolCall'',
              JObj [(''args'', JObj [(''path'', JStr ''a.txt'')])])])]"

definition read_started_object_path :: jsval where
  "read_started_object_path =
     JObj [(''type'', JStr ''tool_call''), (''subtype'', JStr ''started''),
           (''call_id'', JStr ''c1''),
           (''tool_call'', JObj [(''readToolCall'',
              JObj [(''args'', JObj [(''path'', JObj [(''toString'', JStr ''a.txt'')])])])])]"

text \<open>The end of a read whose result has an empty \<open>error\<close>, and of one that failed.\<close>

definition read_completed_empty_error :: jsval where
  "read_completed_empty_error =
     JObj [(''type'', JStr ''tool_call''), (''subtype'', JStr ''completed''),
           (''call_id'', JStr ''c1''),
           (''tool_call'', JObj [(''readToolCall'',
              JObj [(''result'', JObj [(''error'', JStr [])])])])]"

definition read_completed_error :: jsval where
  "read_completed_error =
     JObj [(''type'', JStr ''tool_call''), (''subtype'', JStr ''completed''),
           (''call_id'', JStr ''c1''),
           (''tool_call'', JObj [(''readToolCall'',
              JObj [(''result'', JObj [(''error'', JObj [(''message'', JStr ''no such file'')])])])])]"

text \<open>The end of a shell command that printed two spaces, and of one that exited with 1.\<close>

definition shell_completed_blank :: jsval where
  "shell_completed_blank =
     JObj [(''type'', JStr ''tool_call''), (''subtype'', JStr ''completed''),
           (''call_id'', JStr ''c2''),
           (''tool_call'', JObj [(''shellToolCall'',
              JObj [(''args'', JObj [(''command'', JStr ''true'')]),
                    (''result'', JObj [(''success'', JObj [(''stdout'', JStr ''  '')])])])])]"

definition shell_completed_exit :: jsval where
  "shell_completed_exit =
     JObj [(''type'', JStr ''tool_call''), (''subtype'', JStr ''completed''),
           (''call_id'', JStr ''c2''),
           (''tool_call'', JObj [(''bashToolCall'',
              JObj [(''args'', JObj [(''command'', JStr ''false'')]),
                    (''result'', JObj [(''success'',
                       JObj [(''output'', JStr []), (''exitCode'', JNum ''1'')])])])])]"

text \<open>The end of a shell command that exited with 3 and whose output is an object with
  a key \<open>toString\<close>.\<close>

definition shell_completed_object_output :: jsval where
  "shell_completed_object_output =
     JObj [(''type'', JStr ''tool_call''), (''subtype'', JStr ''completed''),
           (''call_id'', JStr ''c2''),
           (''tool_call'', JObj [(''bashToolCall'',
              JObj [(''args'', JObj [(''command'', JStr ''ls'')]),
                    (''result'', JObj [(''success'',
                       JObj [(''output'', JObj [(''toString'', JStr ''a.txt'')]),
                             (''exitCode'', JNum ''3'')])])])])]"

text \<open>A \<open>tool_call\<close> event with a subtype of its own.\<close>

definition tool_call_progress :: jsval where
  "tool_call_progress =
     JObj [(''type'', JStr ''tool_call''), (''subtype'', JStr ''progress''),
           (''call_id'', JStr ''c1'')]"

subsection \<open>Assistant texts\<close>

text \<open>An assistant event with the text \<open>t\<close>; a list of texts of which each is a prefix of
  the next; the notification of a text chunk.\<close>

definition assistant_event :: "jsval \<Rightarrow> string \<Rightarrow> bool" where
  "assistant_event evt t =
     (js_get evt ''type'' = JStr ''assistant'' \<and> assistant_text evt = JStr t)"

fun prefix_chain :: "string list \<Rightarrow> bool" where
  "prefix_chain [] = True"
| "prefix_chain [t] = True"
| "prefix_chain (s # t # ts) = (prefix s t \<and> prefix_chain (t # ts))"

definition chunk :: "string \<Rightarrow> string \<Rightarrow> SessionNotification" where
  "chunk sid delta = SessionNotification sid (AgentMessageChunk delta)"

subsection \<open>Agents and events of a turn\<close>

text \<open>An agent with no session, and one with the fresh session \<open>s1\<close>.\<close>

definition empty_agent :: CursorAcpAgent where
  "empty_agent = \<lparr>sessions = Map.empty, client = [], spawned = [], signals = [], timers = []\<rparr>"

definition agent1 :: CursorAcpAgent where
  "agent1 = newSession empty_agent ''s1'' None"

text \<open>An assistant event whose text is the number 5.\<close>

definition assistant_number_text :: jsval where
  "assistant_number_text =
     JObj [(''type'', JStr ''assistant''),
           (''message'', JObj [(''role'', JStr ''assistant''),
              (''content'', JArr [JObj [(''type'', JStr ''text''), (''text'', JNum ''5'')]])])]"

text \<open>An assistant event, a system event with a \<open>session_id\<close>, a result event.\<close>

definition assistant_says :: "string \<Rightarrow> jsval" where
  "assistant_says t =
     JObj [(''type'', JStr ''assistant''),
           (''message'', JObj [(''role'', JStr ''assistant''),
              (''content'', JArr [JObj [(''type'', JStr ''text''), (''text'', JStr t)]])])]"

definition system_event :: "jsval \<Rightarrow> jsval" where
  "system_event session_id = JObj [(''type'', JStr ''system''), (''session_id'', session_id)]"

definition result_event :: "string \<Rightarrow> jsval" where
  "result_event subtype = JObj [(''type'', JStr ''result''), (''subtype'', JStr subtype)]"

text \<open>The events of the lines that \<open>JSON.parse\<close> accepts, in order.\<close>

definition parsed_events :: "(string \<Rightarrow> error + jsval) \<Rightarrow> string list \<Rightarrow> jsval list" where
  "parsed_events parse lines =
     concat (map (\<lambda>line. case parse line of Inl e \<Rightarrow> [] | Inr evt \<Rightarrow> [evt]) lines)"

text \<open>The first event that the handler does not skip and whose \<open>session_id\<close> is truthy.\<close>

definition first_resume :: "jsval list \<Rightarrow> jsval option" where
  "first_resume evts =
     find (\<lambda>evt. \<not> mapper_throws evt \<and> truthy (js_get evt ''session_id'')) evts"

text \<open>A stand-in for \<open>JSON.parse\<close> on three kinds of lines.\<close>

definition toy_parse :: "string \<Rightarrow> error + jsval" where
  "toy_parse line =
     (if line = ''null'' then Inr JNull
      else if take 1 line = ''{'' then Inr (system_event (JStr (drop 1 line)))
      else Inl SyntaxError)"

text \<open>
  Stand-ins for \<open>child_process.spawn\<close> and \<open>child.kill\<close>: a spawn that throws for an
  argument that is no string or holds a NUL, and returns a child otherwise; a kill that
  delivers every signal.
\<close>

definition spawn_checked :: "jsval list \<Rightarrow> string option \<Rightarrow> error + ChildProcess" where
  "spawn_checked args dir =
     (if list_all (\<lambda>v. case v of JStr t \<Rightarrow> CHR 0x00 \<notin> set t | _ \<Rightarrow> False) args
      then Inr \<lparr>pid = 7, killed = False\<rparr>
      else Inl TypeError)"

definition kill_delivers :: "nat \<Rightarrow> string \<Rightarrow> error + bool" where
  "kill_delivers p signal = Inr True"

text \<open>The agent \<open>agent1\<close> once the session \<open>s1\<close> has the resume handle \<open>A\<close>, and once it
  has a handle with a NUL in it.\<close>

definition agent_resumed_nul :: CursorAcpAgent where
  "agent_resumed_nul =
     update_session ''s1'' (\<lambda>s. s\<lparr>resumeId := JStr [CHR ''a'', CHR 0x00, CHR ''b'']\<rparr>) agent1"

definition agent_resumed :: CursorAcpAgent where
  "agent_resumed = update_session ''s1'' (\<lambda>s. s\<lparr>resumeId := JStr ''A''\<rparr>) agent1"

section \<open>Lemmas\<close>

lemma js_get_nullish: "nullish v \<Longrightarrow> js_get v k = JUndefined"
  by (cases v) simp_all

lemma js_prop_type: "js_get evt k = JStr s \<Longrightarrow> js_prop evt k = Inr (JStr s)"
  by (cases evt) (simp_all add: js_prop_def)

lemma bind_err_simps [simp]:
  "bind_err (Inl e) f = Inl e" "bind_err (Inr x) f = f x"
  by (simp_all add: bind_err_def)

lemma js_String_cases:
  "(case js_String v of Inl e \<Rightarrow> e = TypeError \<and> unprintable v | Inr s \<Rightarrow> \<not> unprintable v)"
  "(case join_parts xs of
      Inl e \<Rightarrow> e = TypeError \<and> list_ex (\<lambda>x. \<not> nullish x \<and> unprintable x) xs
    | Inr ps \<Rightarrow> \<not> list_ex (\<lambda>x. \<not> nullish x \<and> unprintable x) xs)"
proof (induction v and xs rule: js_String_join_parts.induct)
  case (6 xs)
  then show ?case by (simp split: sum.splits)
next
  case (9 x xs)
  show ?case
  proof (cases "if nullish x then Inr [] else js_String x")
    case (Inl e)
    then have "\<not> nullish x" "js_String x = Inl e" by (auto split: if_splits)
    with "9.IH"(1) Inl show ?thesis by simp
  next
    case (Inr p)
    have "nullish x \<or> \<not> unprintable x"
      using Inr "9.IH"(1) by (cases "nullish x") simp_all
    with "9.IH"(2) [OF Inr] Inr show ?thesis by (auto split: sum.splits)
  qed
qed simp_all

lemma js_String_throws:
  "(js_String v = Inl e) = (e = TypeError \<and> unprintable v)"
  using js_String_cases(1) [of v] by (cases "js_String v") auto

lemma join_parts_throws:
  "(join_parts xs = Inl e) = (e = TypeError \<and> unprintable (JArr xs))"
  using js_String_cases(2) [of xs] by (cases "join_parts xs") auto

lemma js_String_unprintable: "unprintable v \<Longrightarrow> js_String v = Inl TypeError"
  by (simp add: js_String_throws)

lemma js_String_printable: "\<not> unprintable v \<Longrightarrow> \<exists>s. js_String v = Inr s"
  by (cases "js_String v") (simp_all add: js_String_throws)

lemma join_parts_unprintable: "unprintable (JArr xs) \<Longrightarrow> join_parts xs = Inl TypeError"
  by (simp add: join_parts_throws)

lemma join_parts_printable: "\<not> unprintable (JArr xs) \<Longrightarrow> \<exists>ps. join_parts xs = Inr ps"
  by (cases "join_parts xs") (simp_all add: join_parts_throws)

lemma js_join_throws:
  "(js_join xs sep = Inl e) = (e = TypeError \<and> unprintable (JArr xs))"
proof (cases "unprintable (JArr xs)")
  case True
  have "join_parts xs = Inl TypeError" by (rule join_parts_unprintable [OF True])
  then have "js_join xs sep = Inl TypeError" by (simp add: js_join_def)
  with True show ?thesis by auto
next
  case False
  from join_parts_printable [OF False] obtain ps where "join_parts xs = Inr ps" ..
  then have "js_join xs sep = Inr (intercalate sep ps)" by (simp add: js_join_def)
  with False show ?thesis by simp
qed

lemma labelled_throws:
  "(labelled lead v other = Inl e) = (e = TypeError \<and> truthy v \<and> unprintable v)"
proof (cases "truthy v \<and> unprintable v")
  case True
  then have "js_String v = Inl TypeError" by (simp add: js_String_unprintable)
  with True have "labelled lead v other = Inl TypeError" by (simp add: labelled_def)
  with True show ?thesis by auto
next
  case False
  show ?thesis
  proof (cases "truthy v")
    case True
    with False have "\<not> unprintable v" by simp
    from js_String_printable [OF this] obtain s where "js_String v = Inr s" ..
    with True have "labelled lead v other = Inr (lead @ s)" by (simp add: labelled_def)
    with False show ?thesis by simp
  next
    case no: False
    then have "labelled lead v other = Inr other" by (simp add: labelled_def)
    with no show ?thesis by simp
  qed
qed

lemma unprintable_truthy: "unprintable v \<Longrightarrow> truthy v \<and> \<not> nullish v"
  by (cases v) simp_all

lemma unprintable_coalesce:
  "unprintable (coalesce a (coalesce b (JStr []))) = unprintable (coalesce a b)"
  by (cases a; cases b) (simp_all add: coalesce_def)

lemma labelled_Inl: "(labelled lead v other = Inl e) = (e = TypeError \<and> unprintable v)"
  using unprintable_truthy [of v] by (auto simp: labelled_throws)

lemma bind_String_Inl:
  "(bind_err (js_String v) (\<lambda>s. Inr (f s)) = Inl e) = (e = TypeError \<and> unprintable v)"
proof (cases "unprintable v")
  case True
  then show ?thesis using js_String_unprintable [OF True] by auto
next
  case False
  from js_String_printable [OF False] obtain s where "js_String v = Inr s" ..
  with False show ?thesis by simp
qed

lemma shown_command_Inl:
  "(bind_err
      (if \<not> nullish (js_get args ''command'') then Inr (js_get args ''command'')
       else if \<not> nullish (js_get args ''cmd'') then Inr (js_get args ''cmd'')
       else (case js_get args ''commands'' of
               JArr xs \<Rightarrow> bind_err (js_join xs '' && '') (\<lambda>s. Inr (JStr s))
             | _ \<Rightarrow> Inr JUndefined))
      (\<lambda>cmd. if truthy cmd then bind_err (js_String cmd) (\<lambda>s. Inr (''`'' @ s @ ''`''))
              else Inr ''Terminal'') = Inl e)
   = (e = TypeError \<and> unprintable (shown_command args))"
proof (cases "nullish (js_get args ''command'')")
  case False
  then show ?thesis
    using unprintable_truthy [of "js_get args ''command''"]
    by (auto simp: shown_command_def bind_String_Inl)
next
  case c: True
  show ?thesis
  proof (cases "nullish (js_get args ''cmd'')")
    case False
    with c show ?thesis
      using unprintable_truthy [of "js_get args ''cmd''"]
      by (auto simp: shown_command_def bind_String_Inl)
  next
    case True
    show ?thesis
    proof (cases "js_get args ''commands''")
      case (JArr xs)
      show ?thesis
      proof (cases "js_join xs '' && ''")
        case (Inl e')
        with c True JArr show ?thesis
          using js_join_throws [of xs "'' && ''" e'] by (auto simp: shown_command_def)
      next
        case (Inr s)
        then have "\<not> unprintable (JArr xs)"
          using js_join_throws [of xs "'' && ''" TypeError] by auto
        with c True JArr Inr show ?thesis by (simp add: shown_command_def)
      qed
    qed (use c True in \<open>simp_all add: shown_command_def\<close>)
  qed
qed

lemma buildToolTitle_throws:
  "(buildToolTitle kind args = Inl e) = (e = TypeError \<and> title_throws kind args)"
proof -
  consider (rw) "kind = ''readToolCall'' \<or> kind = ''writeToolCall''"
    | (grep) "kind = ''grepToolCall''"
    | (glob) "kind = ''globToolCall''"
    | (sh) "kind = ''bashToolCall'' \<or> kind = ''shellToolCall''"
    | (other) "kind \<notin> {''readToolCall'', ''writeToolCall'', ''grepToolCall'', ''globToolCall'',
                       ''bashToolCall'', ''shellToolCall''}"
    by auto
  then show ?thesis
  proof cases
    case rw
    then show ?thesis by (auto simp: buildToolTitle_def title_throws_def labelled_Inl)
  next
    case grep
    show ?thesis
    proof (cases "truthy (js_get args ''pattern'') \<and> truthy (js_get args ''path'')")
      case True
      show ?thesis
      proof (cases "js_String (js_get args ''path'')")
        case (Inl e')
        with grep True show ?thesis
          using js_String_throws [of "js_get args ''path''" e']
          by (auto simp: buildToolTitle_def title_throws_def)
      next
        case (Inr p)
        then have "\<not> unprintable (js_get args ''path'')"
          using js_String_throws [of "js_get args ''path''" TypeError] by auto
        with grep True Inr show ?thesis
          by (simp add: buildToolTitle_def title_throws_def bind_String_Inl)
      qed
    next
      case False
      with grep show ?thesis
        using unprintable_truthy [of "js_get args ''path''"]
          unprintable_truthy [of "js_get args ''pattern''"]
        by (auto simp: buildToolTitle_def title_throws_def labelled_Inl)
    qed
  next
    case glob
    then show ?thesis by (simp add: buildToolTitle_def title_throws_def labelled_Inl)
  next
    case sh
    then show ?thesis
      by (auto simp: buildToolTitle_def title_throws_def shown_command_Inl)
  next
    case other
    then show ?thesis by (auto simp: buildToolTitle_def title_throws_def)
  qed
qed

lemma shell_text_throws:
  "(shell_text result = Inl e)
   = (e = TypeError \<and> unprintable (coalesce (js_get result ''output'') (js_get result ''stdout'')))"
  unfolding shell_text_def Let_def
  by (simp only: bind_String_Inl unprintable_coalesce)

lemma bind_Inr_Inl: "(bind_err m (\<lambda>x. Inr (f x)) = Inl e) = (m = Inl e)"
  by (cases m) simp_all

lemma completed_content_throws:
  "(completed_content toolKindKey args result = Inl e)
   = (e = TypeError \<and> content_throws toolKindKey args result)"
proof -
  consider (rd) "toolKindKey = Some ''readToolCall''"
    | (wr) "toolKindKey = Some ''writeToolCall''"
    | (sh) "toolKindKey = Some ''bashToolCall'' \<or> toolKindKey = Some ''shellToolCall''"
    | (se) "toolKindKey = Some ''grepToolCall'' \<or> toolKindKey = Some ''globToolCall''"
    | (other) "toolKindKey \<notin> Some ` {''readToolCall'', ''writeToolCall'', ''grepToolCall'',
                  ''globToolCall'', ''bashToolCall'', ''shellToolCall''}"
    by auto
  then show ?thesis
  proof cases
    case rd
    then show ?thesis
      using unprintable_truthy [of "coalesce (js_get result ''content'') (js_get args ''content'')"]
      by (auto simp: completed_content_def content_throws_def bind_String_Inl unprintable_coalesce)
  next
    case wr
    then show ?thesis by (simp add: completed_content_def content_throws_def Let_def)
  next
    case sh
    then show ?thesis
      by (auto simp: completed_content_def content_throws_def bind_Inr_Inl shell_text_throws)
  next
    case se
    then show ?thesis
      by (auto simp: completed_content_def content_throws_def split: option.splits)
  next
    case other
    then show ?thesis by (auto simp: completed_content_def content_throws_def)
  qed
qed

lemma assistant_notes_throws:
  "(assistant_notes sessionId evt lastText = Inl e)
   = (e = TypeError \<and> truthy (assistant_text evt) \<and> \<not> is_string (assistant_text evt))"
  by (cases "assistant_text evt") (auto simp: assistant_notes_def Let_def)

lemma mapper_throws_iff:
  "(mapCursorEventToAcp sessionId evt lastText = Inl e) = (e = TypeError \<and> mapper_throws evt)"
proof (cases "nullish evt")
  case True
  then show ?thesis by (auto simp: mapCursorEventToAcp_def js_prop_def mapper_throws_def)
next
  case False
  then have "js_prop evt ''type'' = Inr (js_get evt ''type'')" by (simp add: js_prop_def)
  with False show ?thesis
    by (auto simp: mapCursorEventToAcp_def mapper_throws_def assistant_notes_throws
        started_notes_def completed_notes_def Let_def bind_Inr_Inl buildToolTitle_throws
        completed_content_throws)
qed

lemma mapper_returns: "\<not> mapper_throws evt \<Longrightarrow> \<exists>notes. mapCursorEventToAcp sessionId evt lastText = Inr notes"
  by (cases "mapCursorEventToAcp sessionId evt lastText") (simp_all add: mapper_throws_iff)

lemma summarize_None:
  "(summarizeSearchResult toolKindKey args result = None)
   = (toolKindKey \<noteq> Some ''grepToolCall'' \<and> toolKindKey \<noteq> Some ''globToolCall''
      \<or> unprintable (js_get args ''pattern''))"
proof (cases "pattern_of args")
  case (Inl e)
  then have "unprintable (js_get args ''pattern'')"
    by (simp add: pattern_of_def labelled_Inl)
  with Inl show ?thesis by (simp add: summarizeSearchResult_def Let_def)
next
  case (Inr pat)
  have "\<not> unprintable (js_get args ''pattern'')"
  proof
    assume "unprintable (js_get args ''pattern'')"
    then have "pattern_of args = Inl TypeError" by (simp add: pattern_of_def labelled_Inl)
    with Inr show False by simp
  qed
  with Inr show ?thesis by (simp add: summarizeSearchResult_def Let_def)
qed

lemma on_line_skip:
  "parse line = Inl e \<Longrightarrow> on_line parse sid line st = st"
  by (simp add: on_line_def)

lemma on_event_skip:
  "mapper_throws evt \<Longrightarrow> on_event sid evt st = st"
proof -
  assume "mapper_throws evt"
  then have "mapCursorEventToAcp sid evt (lastAssistantText (snd st)) = Inl TypeError"
    by (simp add: mapper_throws_iff)
  then show ?thesis by (simp add: on_event_def)
qed

lemma mapper_other_type:
  assumes "\<not> nullish evt" "js_get evt ''type'' \<noteq> JStr ''assistant''"
    "js_get evt ''type'' \<noteq> JStr ''tool_call''"
  shows "mapCursorEventToAcp sid evt lastText = Inr []"
  using assms by (simp add: mapCursorEventToAcp_def js_prop_def)

lemma mapper_at_most_two:
  assumes "mapCursorEventToAcp sid evt lastText = Inr notes"
  shows "length notes \<le> 2"
proof (cases "nullish evt")
  case True
  with assms show ?thesis by (simp add: mapCursorEventToAcp_def js_prop_def)
next
  case False
  with assms show ?thesis
    by (auto simp: mapCursorEventToAcp_def js_prop_def assistant_notes_def started_notes_def
        completed_notes_def Let_def bind_err_def
        split: if_splits sum.splits jsval.splits)
qed

lemma client_update_session [simp]: "client (update_session sid f a) = client a"
  by (simp add: update_session_def split: option.splits)

lemma prefix_delta_empty: "prefix l x \<Longrightarrow> (drop (length l) x = []) = (x = l)"
  by (auto simp: prefix_def)

lemma assistant_notes_prefix:
  assumes "assistant_text evt = JStr x" and "prefix l x"
  shows "assistant_notes sid evt l = Inr (if x \<noteq> l then [chunk sid (drop (length l) x)] else [])"
proof (cases "x = l")
  case True
  then show ?thesis using assms(1) by (simp add: assistant_notes_def)
next
  case False
  then have d: "drop (length l) x \<noteq> []"
    using prefix_delta_empty [OF assms(2)] by blast
  have "x \<noteq> []" using False assms(2) by auto
  then show ?thesis
    using False d assms by (simp add: assistant_notes_def Let_def chunk_def del: drop_eq_Nil drop_eq_Nil2)
qed

lemma on_event_assistant:
  assumes "assistant_event evt x" and "prefix l x" and "lastAssistantText t = l"
  shows "on_event sid evt (a, t) =
     (update_session sid (track_resume evt)
        (a\<lparr>client := client a @ (if x \<noteq> l then [chunk sid (drop (length l) x)] else [])\<rparr>),
      t\<lparr>lastAssistantText := x, stopReason := stopReason t\<rparr>)"
proof -
  have ty: "js_get evt ''type'' = JStr ''assistant''" and tx: "assistant_text evt = JStr x"
    using assms(1) by (simp_all add: assistant_event_def)
  have m: "mapCursorEventToAcp sid evt l = assistant_notes sid evt l"
    using ty by (simp add: mapCursorEventToAcp_def js_prop_type)
  have ns: "mapCursorEventToAcp sid evt l =
      Inr (if x \<noteq> l then [chunk sid (drop (length l) x)] else [])"
    unfolding m by (rule assistant_notes_prefix [OF tx assms(2)])
  have tt: "track_text evt l = x"
  proof (cases "x = []")
    case True
    with assms(2) have "l = []" by simp
    with True ty tx show ?thesis by (simp add: track_text_def)
  next
    case False
    with ty tx show ?thesis by (simp add: track_text_def)
  qed
  have tr: "track_result evt (stopReason t) = stopReason t"
    using ty by (simp add: track_result_def)
  have "on_event sid evt (a, t) =
      (update_session sid (track_resume evt)
         (a\<lparr>client := client a @ (if x \<noteq> l then [chunk sid (drop (length l) x)] else [])\<rparr>),
       t\<lparr>lastAssistantText := track_text evt l, stopReason := track_result evt (stopReason t)\<rparr>)"
    using ns assms(3) by (simp add: on_event_def)
  then show ?thesis by (simp only: tt tr)
qed

lemma prefix_chain_last: "prefix_chain (x # xs) \<Longrightarrow> prefix x (last (x # xs))"
proof (induction xs arbitrary: x)
  case Nil
  then show ?case by simp
next
  case (Cons y ys)
  then have "prefix x y" "prefix y (last (y # ys))" by simp_all
  then show ?case by (auto intro: prefix_order.trans)
qed

lemma drop_two_prefixes:
  assumes "prefix l x" and "prefix x w"
  shows "drop (length l) x @ drop (length x) w = drop (length l) w"
  using assms by (auto simp: prefix_def)

lemma deltas_general:
  assumes "list_all2 assistant_event evts texts"
    and "prefix_chain (l # texts)"
    and "lastAssistantText t = l"
  shows "\<exists>deltas.
      client (fst (run_events sid evts (a, t))) = client a @ map (chunk sid) deltas
      \<and> concat deltas = drop (length l) (last (l # texts))
      \<and> (\<forall>d\<in>set deltas. d \<noteq> [])
      \<and> length deltas = length (filter (\<lambda>(p, q). p \<noteq> q) (zip (l # texts) texts))
      \<and> lastAssistantText (snd (run_events sid evts (a, t))) = last (l # texts)"
  using assms
proof (induction evts texts arbitrary: l a t rule: list_all2_induct)
  case Nil
  then show ?case by (simp add: run_events_def)
next
  case (Cons evt evts x texts)
  have px: "prefix l x" and ch: "prefix_chain (x # texts)"
    using Cons.prems(1) by simp_all
  define a' where "a' = update_session sid (track_resume evt)
        (a\<lparr>client := client a @ (if x \<noteq> l then [chunk sid (drop (length l) x)] else [])\<rparr>)"
  define t' where "t' = t\<lparr>lastAssistantText := x, stopReason := stopReason t\<rparr>"
  have step: "on_event sid evt (a, t) = (a', t')"
    unfolding a'_def t'_def
    by (rule on_event_assistant [OF Cons.hyps(1) px Cons.prems(2)])
  have run: "run_events sid (evt # evts) (a, t) = run_events sid evts (a', t')"
    by (simp add: run_events_def step)
  have "lastAssistantText t' = x" by (simp add: t'_def)
  from Cons.IH [OF ch this, of a'] obtain ds where
    ds: "client (fst (run_events sid evts (a', t'))) = client a' @ map (chunk sid) ds"
      "concat ds = drop (length x) (last (x # texts))"
      "\<forall>d\<in>set ds. d \<noteq> []"
      "length ds = length (filter (\<lambda>(p, q). p \<noteq> q) (zip (x # texts) texts))"
      "lastAssistantText (snd (run_events sid evts (a', t'))) = last (x # texts)"
    by blast
  let ?first = "if x \<noteq> l then [drop (length l) x] else []"
  have ca': "client a' = client a @ map (chunk sid) ?first"
    by (simp add: a'_def)
  have pl: "prefix x (last (x # texts))" by (rule prefix_chain_last [OF ch])
  have cat: "concat (?first @ ds) = drop (length l) (last (l # x # texts))"
    using ds(2) drop_two_prefixes [OF px pl] by auto
  have "x \<noteq> l \<Longrightarrow> drop (length l) x \<noteq> []"
    using prefix_delta_empty [OF px] by blast
  then have ne: "\<forall>d\<in>set (?first @ ds). d \<noteq> []"
    using ds(3) by (auto simp del: drop_eq_Nil drop_eq_Nil2)
  have len: "length (?first @ ds)
      = length (filter (\<lambda>(p, q). p \<noteq> q) (zip (l # x # texts) (x # texts)))"
    using ds(4) by auto
  have cl: "client (fst (run_events sid (evt # evts) (a, t)))
      = client a @ map (chunk sid) (?first @ ds)"
    using ds(1) ca' run by simp
  have la: "lastAssistantText (snd (run_events sid (evt # evts) (a, t))) = last (l # x # texts)"
    using ds(5) run by simp
  from cl cat ne len la show ?case by blast
qed

lemma prefix_chain_Nil: "prefix_chain texts \<Longrightarrow> prefix_chain ([] # texts)"
  by (cases texts) simp_all

lemma sessions_update_session:
  "sessions a sid = Some s \<Longrightarrow> sessions (update_session sid f a) sid = Some (f s)"
  by (simp add: update_session_def)

lemma on_event_stopReason:
  "stopReason (snd (on_event sid evt (a, t))) =
     (if js_get evt ''type'' = JStr ''result'' then track_result evt (stopReason t)
      else stopReason t)"
proof (cases "mapCursorEventToAcp sid evt (lastAssistantText t)")
  case (Inl e)
  then have "mapper_throws evt" by (simp add: mapper_throws_iff)
  then have "js_get evt ''type'' \<noteq> JStr ''result''"
    by (auto simp: mapper_throws_def js_get_nullish)
  with Inl show ?thesis by (simp add: on_event_def)
next
  case (Inr ns)
  then show ?thesis by (simp add: on_event_def track_result_def)
qed

lemma agent1_s1:
  "sessions agent1 ''s1'' =
     Some \<lparr>cwd = None, cancelled = False, resumeId = JUndefined, modeId = ModeDefault,
           running = None\<rparr>"
  by (simp add: agent1_def newSession_def)

lemma agent1_s2: "sessions agent1 ''s2'' = None"
  by (simp add: agent1_def newSession_def empty_agent_def)

lemma run_lines_parsed:
  "run_lines parse sid lines st = run_events sid (parsed_events parse lines) st"
proof (induction lines arbitrary: st)
  case Nil
  then show ?case by (simp add: run_lines_def run_events_def parsed_events_def)
next
  case (Cons line lines)
  have "run_lines parse sid (line # lines) st = run_lines parse sid lines (on_line parse sid line st)"
    by (simp add: run_lines_def)
  also have "\<dots> = run_events sid (parsed_events parse lines) (on_line parse sid line st)"
    by (rule Cons.IH)
  also have "\<dots> = run_events sid (parsed_events parse (line # lines)) st"
    by (cases "parse line") (simp_all add: on_line_def run_events_def parsed_events_def)
  finally show ?case .
qed

lemma on_event_session:
  assumes "sessions a sid = Some s"
  shows "sessions (fst (on_event sid evt (a, t))) sid =
     Some (if mapper_throws evt then s else track_resume evt s)"
proof (cases "mapper_throws evt")
  case True
  then show ?thesis using assms by (simp add: on_event_skip)
next
  case False
  from mapper_returns [OF False] obtain ns where
    "mapCursorEventToAcp sid evt (lastAssistantText t) = Inr ns" by blast
  then show ?thesis using assms False
    by (simp add: on_event_def update_session_def)
qed

lemma track_resume_other_fields:
  "cwd (track_resume evt s) = cwd s \<and> cancelled (track_resume evt s) = cancelled s
   \<and> modeId (track_resume evt s) = modeId s \<and> running (track_resume evt s) = running s"
  by (simp add: track_resume_def)

lemma run_events_resume:
  assumes "sessions a sid = Some s"
  shows "\<exists>s'. sessions (fst (run_events sid evts (a, t))) sid = Some s'
     \<and> resumeId s' =
         (if truthy (resumeId s) then resumeId s
          else case first_resume evts of
                 Some evt \<Rightarrow> js_get evt ''session_id''
               | None \<Rightarrow> resumeId s)"
  using assms
proof (induction evts arbitrary: a t s)
  case Nil
  then show ?case by (simp add: run_events_def first_resume_def)
next
  case (Cons evt evts)
  obtain a' t' where st: "on_event sid evt (a, t) = (a', t')" by (cases "on_event sid evt (a, t)")
  define s1 where "s1 = (if mapper_throws evt then s else track_resume evt s)"
  have s1: "sessions a' sid = Some s1"
    using on_event_session [OF Cons.prems, of evt t] st by (simp add: s1_def)
  have run: "run_events sid (evt # evts) (a, t) = run_events sid evts (a', t')"
    by (simp add: run_events_def st)
  from Cons.IH [OF s1, of t'] obtain s' where
    s': "sessions (fst (run_events sid evts (a', t'))) sid = Some s'"
      "resumeId s' =
         (if truthy (resumeId s1) then resumeId s1
          else case first_resume evts of
                 Some evt \<Rightarrow> js_get evt ''session_id''
               | None \<Rightarrow> resumeId s1)"
    by blast
  have r: "resumeId s' =
         (if truthy (resumeId s) then resumeId s
          else case first_resume (evt # evts) of
                 Some evt \<Rightarrow> js_get evt ''session_id''
               | None \<Rightarrow> resumeId s)"
  proof (cases "truthy (resumeId s)")
    case True
    then have "resumeId s1 = resumeId s" by (simp add: s1_def track_resume_def)
    with True s'(2) show ?thesis by simp
  next
    case unset: False
    show ?thesis
    proof (cases "\<not> mapper_throws evt \<and> truthy (js_get evt ''session_id'')")
      case True
      with unset have "resumeId s1 = js_get evt ''session_id''"
        by (simp add: s1_def track_resume_def)
      with True unset s'(2) show ?thesis by (simp add: first_resume_def)
    next
      case False
      with unset have eq: "resumeId s1 = resumeId s" by (auto simp: s1_def track_resume_def)
      from False have f: "first_resume (evt # evts) = first_resume evts"
        by (auto simp: first_resume_def)
      show ?thesis
        unfolding f using s'(2) unset eq by (cases "first_resume evts") simp_all
    qed
  qed
  from s'(1) r run show ?case by simp
qed

lemma spawn_args_resume:
  "truthy (resumeId s) \<Longrightarrow> take 2 (drop 4 (spawn_args s chunks)) = [JStr ''--resume'', resumeId s]"
  by (simp add: spawn_args_def Let_def)

lemma agent_resumed_s1:
  "sessions agent_resumed ''s1'' =
     Some \<lparr>cwd = None, cancelled = False, resumeId = JStr ''A'', modeId = ModeDefault,
           running = None\<rparr>"
  by (simp add: agent_resumed_def update_session_def agent1_s1)

text \<open>When the mapper has returned on an assistant event, a truthy text is a string: the
  case that \<open>track_text\<close> leaves the text in is not reached with a truthy value.\<close>

lemma track_text_string:
  assumes "\<not> mapper_throws evt" and "js_get evt ''type'' = JStr ''assistant''"
  shows "is_string (assistant_text evt) \<or> \<not> truthy (assistant_text evt)"
  using assms by (auto simp: mapper_throws_def)

lemma cancel_session:
  assumes "sessions a sid = Some s"
  shows "\<exists>a' s'. cancel kill a sid = Some (a', Inr ()) \<and> sessions a' sid = Some s'
     \<and> resumeId s' = resumeId s \<and> cancelled s' \<and> modeId s' = modeId s \<and> cwd s' = cwd s"
proof (cases "running s")
  case None
  with assms show ?thesis by (simp add: cancel_def lookup_session_def)
next
  case (Some child)
  show ?thesis
  proof (cases "killed child")
    case True
    with assms Some show ?thesis by (simp add: cancel_def lookup_session_def)
  next
    case False
    with assms Some show ?thesis
      by (cases "kill (pid child) ''SIGTERM''") (simp_all add: cancel_def lookup_session_def)
  qed
qed

lemma prompt_begin_session:
  assumes "sessions a sid = Some s"
  shows "\<exists>a' r s'. prompt_begin spawn a sid chunks = Some (a', r)
     \<and> spawned a' = spawned a @ [(spawn_args s chunks, spawn_cwd s)]
     \<and> sessions a' sid = Some s' \<and> resumeId s' = resumeId s \<and> \<not> cancelled s'"
proof -
  have args: "spawn_args (s\<lparr>cancelled := False\<rparr>) chunks = spawn_args s chunks"
    by (simp add: spawn_args_def planPrefix_def)
  have dir: "spawn_cwd (s\<lparr>cancelled := False\<rparr>) = spawn_cwd s"
    by (simp add: spawn_cwd_def)
  show ?thesis
    using assms
    by (cases "spawn (spawn_args s chunks) (spawn_cwd s)")
       (simp_all add: prompt_begin_def lookup_session_def Let_def args dir)
qed

lemma verbs_keep_resume:
  assumes "sessions a sid = Some s"
  shows "map_option (\<lambda>r. map_option resumeId (sessions (fst r) sid)) (cancel kill a sid)
           = Some (Some (resumeId s))"
    and "map_option (\<lambda>r. map_option resumeId (sessions (fst r) sid)) (setSessionMode a sid mode)
           = Some (Some (resumeId s))"
    and "map_option resumeId (sessions (fst (setSessionModel a sid)) sid) = Some (resumeId s)"
    and "map_option resumeId (sessions (fst (finalize sid exitCode (a, t))) sid)
           = Some (resumeId s)"
    and "map_option (\<lambda>r. map_option resumeId (sessions (fst r) sid))
           (prompt_begin spawn a sid chunks) = Some (Some (resumeId s))"
proof -
  from cancel_session [OF assms, of kill]
  show "map_option (\<lambda>r. map_option resumeId (sessions (fst r) sid)) (cancel kill a sid)
           = Some (Some (resumeId s))"
    by auto
  from prompt_begin_session [OF assms, of spawn chunks]
  show "map_option (\<lambda>r. map_option resumeId (sessions (fst r) sid))
           (prompt_begin spawn a sid chunks) = Some (Some (resumeId s))"
    by auto
  show "map_option (\<lambda>r. map_option resumeId (sessions (fst r) sid)) (setSessionMode a sid mode)
           = Some (Some (resumeId s))"
    "map_option resumeId (sessions (fst (setSessionModel a sid)) sid) = Some (resumeId s)"
    "map_option resumeId (sessions (fst (finalize sid exitCode (a, t))) sid)
           = Some (resumeId s)"
    using assms
    by (simp_all add: setSessionMode_def setSessionModel_def finalize_def
        lookup_session_def update_session_def Let_def)
qed

lemma agent_resumed_nul_s1:
  "sessions agent_resumed_nul ''s1'' =
     Some \<lparr>cwd = None, cancelled = False, resumeId = JStr [CHR ''a'', CHR 0x00, CHR ''b''],
           modeId = ModeDefault, running = None\<rparr>"
  by (simp add: agent_resumed_nul_def update_session_def agent1_s1)

lemma started_throws_skipped:
  assumes "js_get evt ''type'' = JStr ''tool_call''"
    and "js_get evt ''subtype'' = JStr ''started''"
    and "title_throws (kind_or_Other (tool_kind_key evt)) (tool_args evt)"
  shows "mapCursorEventToAcp sid evt lastText = Inl TypeError \<and> on_event sid evt st = st"
proof -
  have "mapper_throws evt" using assms by (simp add: mapper_throws_def)
  then show ?thesis by (simp add: mapper_throws_iff on_event_skip)
qed

lemma completed_throws_skipped:
  assumes "js_get evt ''type'' = JStr ''tool_call''"
    and "js_get evt ''subtype'' = JStr ''completed''"
    and "content_throws (tool_kind_key evt) (tool_args evt) (tool_result evt)"
  shows "mapCursorEventToAcp sid evt lastText = Inl TypeError \<and> on_event sid evt st = st"
proof -
  have "mapper_throws evt" using assms by (simp add: mapper_throws_def)
  then show ?thesis by (simp add: mapper_throws_iff on_event_skip)
qed

section \<open>The claims\<close>

subsection \<open>Text deltas\<close>

text \<open>
  Claim C1. The events of a turn are assistant events whose texts \<open>texts\<close> form a prefix
  chain, handled in order from an empty \<open>lastAssistantText\<close>. Then the handler sends
  message chunks and nothing else; their texts, joined in the order sent, are the last
  text of the chain; none of them is empty; and there is one chunk for each step of the
  chain at which the text changes, the step from the empty text to the first one included.
  No part of the text is sent twice, since the chunks joined are the text itself.
\<close>

theorem deltas_rebuild_text:
  assumes "list_all2 assistant_event evts texts"
    and "prefix_chain texts"
  shows "\<exists>deltas.
      client (fst (run_events sid evts (a, new_turn))) = client a @ map (chunk sid) deltas
      \<and> concat deltas = last ([] # texts)
      \<and> (\<forall>d\<in>set deltas. d \<noteq> [])
      \<and> length deltas = length (filter (\<lambda>(p, q). p \<noteq> q) (zip ([] # texts) texts))"
proof -
  have "lastAssistantText new_turn = []" by (simp add: new_turn_def)
  from deltas_general [OF assms(1) prefix_chain_Nil [OF assms(2)] this, of sid a]
  show ?thesis by auto
qed

text \<open>Claim C1, at the texts \<open>He\<close>, \<open>Hello\<close>, \<open>Hello\<close>: the chunks \<open>He\<close> and \<open>llo\<close>.\<close>

theorem deltas_rebuild_text_witness:
  "list_all2 assistant_event [assistant_says ''He'', assistant_says ''Hello'', assistant_says ''Hello'']
      [''He'', ''Hello'', ''Hello'']
   \<and> prefix_chain [''He'', ''Hello'', ''Hello'']
   \<and> client (fst (run_events ''s1''
          [assistant_says ''He'', assistant_says ''Hello'', assistant_says ''Hello'']
          (agent1, new_turn))) = [chunk ''s1'' ''He'', chunk ''s1'' ''llo'']
   \<and> (\<exists>deltas.
        client (fst (run_events ''s1''
          [assistant_says ''He'', assistant_says ''Hello'', assistant_says ''Hello'']
          (agent1, new_turn))) = client agent1 @ map (chunk ''s1'') deltas
        \<and> concat deltas = ''Hello''
        \<and> (\<forall>d\<in>set deltas. d \<noteq> [])
        \<and> length deltas = 2)"
proof -
  have h: "list_all2 assistant_event
      [assistant_says ''He'', assistant_says ''Hello'', assistant_says ''Hello'']
      [''He'', ''Hello'', ''Hello'']"
    "prefix_chain [''He'', ''Hello'', ''Hello'']"
    by code_simp+
  have v: "client (fst (run_events ''s1''
          [assistant_says ''He'', assistant_says ''Hello'', assistant_says ''Hello'']
          (agent1, new_turn))) = [chunk ''s1'' ''He'', chunk ''s1'' ''llo'']"
    by code_simp
  from deltas_rebuild_text [OF h, of "''s1''" agent1] h v show ?thesis
    by (simp add: numeral_2_eq_2)
qed

subsection \<open>The stop reason\<close>

text \<open>
  Claim C2. \<open>finalize\<close> answers \<open>cancelled\<close> when the flag of the session is set,
  whatever else holds; otherwise the stop reason that the handler took from a result
  event, if there is one; otherwise \<open>end_turn\<close> for the exit code 0 and \<open>refusal\<close> for any
  other code and for none. A result event stores \<open>end_turn\<close> for \<open>success\<close>, \<open>cancelled\<close>
  for \<open>cancelled\<close> and \<open>refusal\<close> for \<open>error\<close>, \<open>failure\<close> and \<open>refused\<close>, and leaves the
  stored reason as it is for any other subtype; an event of another type leaves it too.
\<close>

theorem stop_reason_priority:
  assumes "sessions a sid = Some s"
  shows "snd (finalize sid exitCode (a, t)) =
       (if cancelled s then Cancelled
        else case stopReason t of
               Some r \<Rightarrow> r
             | None \<Rightarrow> if exitCode = Some 0 then EndTurn else Refusal)
     \<and> (js_get evt ''type'' = JStr ''result'' \<longrightarrow>
          stopReason (snd (on_event sid evt (a, t))) =
            (if js_get evt ''subtype'' = JStr ''success'' then Some EndTurn
             else if js_get evt ''subtype'' = JStr ''cancelled'' then Some Cancelled
             else if js_get evt ''subtype'' \<in> {JStr ''error'', JStr ''failure'', JStr ''refused''}
               then Some Refusal
             else stopReason t))
     \<and> (js_get evt ''type'' \<noteq> JStr ''result'' \<longrightarrow>
          stopReason (snd (on_event sid evt (a, t))) = stopReason t)"
proof -
  have f: "snd (finalize sid exitCode (a, t)) =
       (if cancelled s then Cancelled
        else case stopReason t of
               Some r \<Rightarrow> r
             | None \<Rightarrow> if exitCode = Some 0 then EndTurn else Refusal)"
    using sessions_update_session [OF assms, of "\<lambda>s. s\<lparr>running := None\<rparr>"]
    by (simp add: finalize_def Let_def)
  have r: "js_get evt ''type'' = JStr ''result'' \<longrightarrow>
          stopReason (snd (on_event sid evt (a, t))) =
            (if js_get evt ''subtype'' = JStr ''success'' then Some EndTurn
             else if js_get evt ''subtype'' = JStr ''cancelled'' then Some Cancelled
             else if js_get evt ''subtype'' \<in> {JStr ''error'', JStr ''failure'', JStr ''refused''}
               then Some Refusal
             else stopReason t)"
    by (simp add: on_event_stopReason track_result_def)
  have n: "js_get evt ''type'' \<noteq> JStr ''result'' \<longrightarrow>
          stopReason (snd (on_event sid evt (a, t))) = stopReason t"
    by (simp add: on_event_stopReason)
  from f r n show ?thesis by blast
qed

text \<open>Claim C2, at a fresh session: the exit codes 0 and 1 without a result event, a
  \<open>refused\<close> result event, and an assistant event.\<close>

theorem stop_reason_priority_witness:
  "sessions agent1 ''s1'' =
     Some \<lparr>cwd = None, cancelled = False, resumeId = JUndefined, modeId = ModeDefault,
           running = None\<rparr>
   \<and> snd (finalize ''s1'' (Some 0) (agent1, new_turn)) = EndTurn
   \<and> snd (finalize ''s1'' (Some 1) (agent1, new_turn)) = Refusal
   \<and> js_get (result_event ''refused'') ''type'' = JStr ''result''
   \<and> stopReason (snd (on_event ''s1'' (result_event ''refused'') (agent1, new_turn))) = Some Refusal
   \<and> js_get (assistant_says ''Hi'') ''type'' \<noteq> JStr ''result''
   \<and> stopReason (snd (on_event ''s1'' (assistant_says ''Hi'') (agent1, new_turn))) = None"
proof -
  have ty: "js_get (result_event ''refused'') ''type'' = JStr ''result''"
    "js_get (result_event ''refused'') ''subtype'' = JStr ''refused''"
    "js_get (assistant_says ''Hi'') ''type'' \<noteq> JStr ''result''"
    by (simp_all add: result_event_def assistant_says_def)
  have nt: "stopReason new_turn = None" by (simp add: new_turn_def)
  from stop_reason_priority [OF agent1_s1, of "Some 0" new_turn "result_event ''refused''"]
    stop_reason_priority [OF agent1_s1, of "Some 1" new_turn "assistant_says ''Hi''"]
    agent1_s1 ty nt
  show ?thesis by simp
qed

subsection \<open>The start of a tool call\<close>

text \<open>
  Claim C3, as the code has it. For a \<open>tool_call\<close> event with the subtype \<open>started\<close> whose
  title can be built, the mapper returns two notifications, in this order: a \<open>tool_call\<close>
  with the status \<open>pending\<close>, the title, the kind, the copy of the arguments and the
  locations that the arguments give, and a \<open>tool_call_update\<close> with the status
  \<open>in_progress\<close>; both carry the same call identifier. The title cannot be built when a
  value that it shows is an object with a key \<open>toString\<close> of its own, or an array that
  holds one (\<open>title_throws\<close>): then the mapper throws a \<open>TypeError\<close>, and the line handler
  skips the event and changes nothing.
\<close>

theorem started_pending_then_in_progress:
  assumes "js_get evt ''type'' = JStr ''tool_call''"
    and "js_get evt ''subtype'' = JStr ''started''"
  shows "(\<not> title_throws (kind_or_Other (tool_kind_key evt)) (tool_args evt) \<longrightarrow>
       (\<exists>title.
         buildToolTitle (kind_or_Other (tool_kind_key evt)) (tool_args evt) = Inr title
         \<and> mapCursorEventToAcp sessionId evt lastText =
           Inr [SessionNotification sessionId
                  (ToolCall (call_id evt) title
                     (inferToolKind (kind_or_Other (tool_kind_key evt)))
                     Pending (safeJson (tool_args evt)) (toLocationsFromArgs (tool_args evt))),
                SessionNotification sessionId
                  (ToolCallUpdate (call_id evt) InProgress None None None)]))
     \<and> (title_throws (kind_or_Other (tool_kind_key evt)) (tool_args evt) \<longrightarrow>
          mapCursorEventToAcp sessionId evt lastText = Inl TypeError
          \<and> on_event sessionId evt st = st)"
proof (cases "title_throws (kind_or_Other (tool_kind_key evt)) (tool_args evt)")
  case True
  with started_throws_skipped [OF assms True, of sessionId lastText st] show ?thesis by simp
next
  case False
  obtain title where t: "buildToolTitle (kind_or_Other (tool_kind_key evt)) (tool_args evt) = Inr title"
    using False
    by (cases "buildToolTitle (kind_or_Other (tool_kind_key evt)) (tool_args evt)")
       (simp_all add: buildToolTitle_throws)
  with assms False show ?thesis
    by (simp add: mapCursorEventToAcp_def js_prop_type started_notes_def Let_def)
qed

text \<open>Claim C3, at the start of a read of \<open>a.txt\<close>, and at the start of a read whose
  \<open>path\<close> is the object \<open>{"toString": "a.txt"}\<close>, which the line handler skips.\<close>

theorem started_pending_then_in_progress_witness:
  "js_get read_started ''type'' = JStr ''tool_call''
   \<and> js_get read_started ''subtype'' = JStr ''started''
   \<and> \<not> title_throws (kind_or_Other (tool_kind_key read_started)) (tool_args read_started)
   \<and> mapCursorEventToAcp ''s1'' read_started [] =
       Inr [SessionNotification ''s1''
              (ToolCall (JStr ''c1'') ''Read a.txt'' Read Pending
                 (JObj [(''path'', JStr ''a.txt'')]) (Some [Location ''a.txt'' None])),
            SessionNotification ''s1'' (ToolCallUpdate (JStr ''c1'') InProgress None None None)]
   \<and> js_get read_started_object_path ''type'' = JStr ''tool_call''
   \<and> js_get read_started_object_path ''subtype'' = JStr ''started''
   \<and> title_throws (kind_or_Other (tool_kind_key read_started_object_path))
         (tool_args read_started_object_path)
   \<and> on_event ''s1'' read_started_object_path (agent1, new_turn) = (agent1, new_turn)"
proof -
  have h: "js_get read_started ''type'' = JStr ''tool_call''"
    "js_get read_started ''subtype'' = JStr ''started''"
    by code_simp+
  have k: "js_get read_started_object_path ''type'' = JStr ''tool_call''"
    "js_get read_started_object_path ''subtype'' = JStr ''started''"
    by code_simp+
  have u: "title_throws (kind_or_Other (tool_kind_key read_started_object_path))
         (tool_args read_started_object_path)"
    by code_simp
  have n: "\<not> title_throws (kind_or_Other (tool_kind_key read_started)) (tool_args read_started)"
    by code_simp
  have v: "buildToolTitle (kind_or_Other (tool_kind_key read_started)) (tool_args read_started)
             = Inr ''Read a.txt''"
    "call_id read_started = JStr ''c1''"
    "inferToolKind (kind_or_Other (tool_kind_key read_started)) = Read"
    "safeJson (tool_args read_started) = JObj [(''path'', JStr ''a.txt'')]"
    "toLocationsFromArgs (tool_args read_started) = Some [Location ''a.txt'' None]"
    by code_simp+
  from started_pending_then_in_progress [OF h, of "''s1''" "[]"]
    started_pending_then_in_progress [OF k, where sessionId = "''s1''" and st = "(agent1, new_turn)"]
    h n k u
  show ?thesis by (simp add: v)
qed

text \<open>
  Claim C3 as stated fails at a \<open>started\<close> event whose \<open>path\<close> is the object
  \<open>{"toString": "a.txt"}\<close>: the template of the title converts the object, the
  conversion throws, and the mapper returns no notification.
\<close>

theorem started_unprintable_title_counterexample:
  "js_get read_started_object_path ''type'' = JStr ''tool_call''
   \<and> js_get read_started_object_path ''subtype'' = JStr ''started''
   \<and> mapCursorEventToAcp ''s1'' read_started_object_path [] = Inl TypeError"
  by code_simp

subsection \<open>The end of a tool call\<close>

text \<open>
  Claim C4, as the code has it. For a \<open>tool_call\<close> event with the subtype \<open>completed\<close>
  whose content can be rendered, the mapper returns one \<open>tool_call_update\<close>; its status is
  \<open>failed\<close> when the \<open>error\<close> field of the result of the tool is truthy, and \<open>completed\<close>
  when it is missing, \<open>null\<close>, \<open>false\<close>, 0 or the empty string. The content cannot be
  rendered when the text that a read or a shell tool shows is an object with a key
  \<open>toString\<close> of its own, or an array that holds one (\<open>content_throws\<close>): then the
  mapper throws a \<open>TypeError\<close>, and the line handler skips the event and changes nothing.
\<close>

theorem completed_status_by_error:
  assumes "js_get evt ''type'' = JStr ''tool_call''"
    and "js_get evt ''subtype'' = JStr ''completed''"
  shows "(\<not> content_throws (tool_kind_key evt) (tool_args evt) (tool_result evt) \<longrightarrow>
       (\<exists>c.
         mapCursorEventToAcp sessionId evt lastText =
           Inr [SessionNotification sessionId
                  (ToolCallUpdate (call_id evt)
                     (if truthy (js_get (js_get (tool_of evt) ''result'') ''error'')
                      then Failed else Completed)
                     (Some (safeJson (tool_result evt)))
                     (completed_locations (tool_result evt) (tool_args evt)) c)]))
     \<and> (content_throws (tool_kind_key evt) (tool_args evt) (tool_result evt) \<longrightarrow>
          mapCursorEventToAcp sessionId evt lastText = Inl TypeError
          \<and> on_event sessionId evt st = st)"
proof (cases "content_throws (tool_kind_key evt) (tool_args evt) (tool_result evt)")
  case True
  with completed_throws_skipped [OF assms True, of sessionId lastText st] show ?thesis by simp
next
  case False
  obtain c where "completed_content (tool_kind_key evt) (tool_args evt) (tool_result evt) = Inr c"
    using False
    by (cases "completed_content (tool_kind_key evt) (tool_args evt) (tool_result evt)")
       (simp_all add: completed_content_throws)
  with assms False show ?thesis
    by (simp add: mapCursorEventToAcp_def js_prop_type completed_notes_def isError_def Let_def)
qed

text \<open>Claim C4, at a read that ended with the error \<open>{"message": "no such file"}\<close>, and
  at a shell tool whose \<open>output\<close> is the object \<open>{"toString": "a.txt"}\<close>, which the line
  handler skips.\<close>

theorem completed_status_by_error_witness:
  "js_get read_completed_error ''type'' = JStr ''tool_call''
   \<and> js_get read_completed_error ''subtype'' = JStr ''completed''
   \<and> \<not> content_throws (tool_kind_key read_completed_error) (tool_args read_completed_error)
         (tool_result read_completed_error)
   \<and> truthy (js_get (js_get (tool_of read_completed_error) ''result'') ''error'')
   \<and> (\<exists>c. mapCursorEventToAcp ''s1'' read_completed_error [] =
         Inr [SessionNotification ''s1''
                (ToolCallUpdate (JStr ''c1'') Failed
                   (Some (JObj [(''message'', JStr ''no such file'')])) None c)])
   \<and> js_get shell_completed_object_output ''type'' = JStr ''tool_call''
   \<and> js_get shell_completed_object_output ''subtype'' = JStr ''completed''
   \<and> content_throws (tool_kind_key shell_completed_object_output)
         (tool_args shell_completed_object_output) (tool_result shell_completed_object_output)
   \<and> on_event ''s1'' shell_completed_object_output (agent1, new_turn) = (agent1, new_turn)"
proof -
  have h: "js_get read_completed_error ''type'' = JStr ''tool_call''"
    "js_get read_completed_error ''subtype'' = JStr ''completed''"
    by code_simp+
  have k: "js_get shell_completed_object_output ''type'' = JStr ''tool_call''"
    "js_get shell_completed_object_output ''subtype'' = JStr ''completed''"
    by code_simp+
  have u: "content_throws (tool_kind_key shell_completed_object_output)
         (tool_args shell_completed_object_output) (tool_result shell_completed_object_output)"
    by code_simp
  have n: "\<not> content_throws (tool_kind_key read_completed_error) (tool_args read_completed_error)
         (tool_result read_completed_error)"
    by code_simp
  have v: "truthy (js_get (js_get (tool_of read_completed_error) ''result'') ''error'')"
    "call_id read_completed_error = JStr ''c1''"
    "safeJson (tool_result read_completed_error) = JObj [(''message'', JStr ''no such file'')]"
    "completed_locations (tool_result read_completed_error) (tool_args read_completed_error) = None"
    by code_simp+
  from completed_status_by_error [OF h, of "''s1''" "[]"]
    completed_status_by_error [OF k, where sessionId = "''s1''" and st = "(agent1, new_turn)"]
    h n k u
  show ?thesis by (simp add: v)
qed

text \<open>
  Claim C4 as stated fails at a result that has the field \<open>error\<close> with the empty string
  as its value: the field is present, and the status is \<open>completed\<close>.
\<close>

theorem completed_empty_error_counterexample:
  "js_get read_completed_empty_error ''type'' = JStr ''tool_call''
   \<and> js_get read_completed_empty_error ''subtype'' = JStr ''completed''
   \<and> js_get (js_get (tool_of read_completed_empty_error) ''result'') ''error'' = JStr []
   \<and> mapCursorEventToAcp ''s1'' read_completed_empty_error [] =
       Inr [SessionNotification ''s1''
              (ToolCallUpdate (JStr ''c1'') Completed (Some (JStr [])) None None)]"
  by code_simp

subsection \<open>Unknown sessions\<close>

text \<open>
  Claim C5, as the code has it. For a session identifier that the registry does not hold
  (and that names no member of \<open>Object.prototype\<close>), \<open>prompt\<close>, \<open>cancel\<close> and
  \<open>setSessionMode\<close> throw \<open>Session not found\<close> and leave the agent as it was: nothing is
  spawned, no signal is sent. \<open>setSessionModel\<close> looks no session up: for every
  identifier it returns, and leaves the agent as it was.
\<close>

theorem unknown_session_rejected:
  assumes "sessions a sid = None" and "sid \<notin> set prototype_names"
  shows "prompt_begin spawn a sid chunks = Some (a, Inl (Error ''Session not found''))
     \<and> cancel kill a sid = Some (a, Inl (Error ''Session not found''))
     \<and> setSessionMode a sid mode = Some (a, Inl (Error ''Session not found''))
     \<and> setSessionModel a any_sid = (a, Inr ())"
  using assms
  by (simp add: prompt_begin_def cancel_def setSessionMode_def setSessionModel_def lookup_session_def)

text \<open>Claim C5, at the identifier \<open>s2\<close> and an agent whose only session is \<open>s1\<close>.\<close>

theorem unknown_session_rejected_witness:
  "sessions agent1 ''s2'' = None
   \<and> ''s2'' \<notin> set prototype_names
   \<and> prompt_begin spawn_checked agent1 ''s2'' [TextChunk ''hello'']
       = Some (agent1, Inl (Error ''Session not found''))
   \<and> cancel kill_delivers agent1 ''s2'' = Some (agent1, Inl (Error ''Session not found''))
   \<and> setSessionMode agent1 ''s2'' ''plan'' = Some (agent1, Inl (Error ''Session not found''))
   \<and> setSessionModel agent1 ''s2'' = (agent1, Inr ())
   \<and> setSessionModel agent1 ''s1'' = (agent1, Inr ())"
proof -
  have p: "''s2'' \<notin> set prototype_names" by (simp add: prototype_names_def)
  from unknown_session_rejected [OF agent1_s2 p, where any_sid = "''s2''"]
    unknown_session_rejected [OF agent1_s2 p, where any_sid = "''s1''"]
    agent1_s2 p
  show ?thesis by simp
qed

text \<open>
  Claim C5 as stated fails for \<open>setSessionModel\<close>: with an identifier that the registry
  does not hold, the call returns and throws nothing.
\<close>

theorem setSessionModel_unknown_counterexample:
  "sessions agent1 ''s2'' = None
   \<and> snd (setSessionModel agent1 ''s2'') = Inr ()
   \<and> snd (setSessionModel agent1 ''s2'') \<noteq> Inl (Error ''Session not found'')"
  by (simp add: setSessionModel_def agent1_def newSession_def empty_agent_def)

subsection \<open>The resume handle\<close>

text \<open>
  Claim C6, as the code has it. Over the lines of a turn, a resume handle that is set
  stays as it is, whatever \<open>session_id\<close> the later events have. A session that has none
  gets the \<open>session_id\<close> of the first event that the handler does not skip and whose
  \<open>session_id\<close> is truthy; an event whose \<open>session_id\<close> is missing, \<open>null\<close>, \<open>false\<close>,
  0 or the empty string is passed over. For a session whose handle is set, \<open>prompt\<close>
  calls \<open>spawn\<close> once, with \<open>--resume\<close> and the handle right after the four fixed
  arguments, and keeps the handle, whether \<open>spawn\<close> returns a child or throws;
  \<open>cancel\<close>, \<open>setSessionMode\<close> and \<open>finalize\<close> keep the handle too.
\<close>

theorem resume_handle_first_truthy:
  assumes "sessions a sid = Some s"
  shows "(\<exists>s'. sessions (fst (run_lines parse sid lines (a, t))) sid = Some s'
       \<and> resumeId s' =
           (if truthy (resumeId s) then resumeId s
            else case first_resume (parsed_events parse lines) of
                   Some evt \<Rightarrow> js_get evt ''session_id''
                 | None \<Rightarrow> resumeId s))
     \<and> (truthy (resumeId s) \<longrightarrow>
          (\<exists>a' r args dir s'. prompt_begin spawn a sid chunks = Some (a', r)
             \<and> spawned a' = spawned a @ [(args, dir)]
             \<and> take 2 (drop 4 args) = [JStr ''--resume'', resumeId s]
             \<and> sessions a' sid = Some s' \<and> resumeId s' = resumeId s))
     \<and> map_option (\<lambda>r. map_option resumeId (sessions (fst r) sid)) (cancel kill a sid)
           = Some (Some (resumeId s))
     \<and> map_option (\<lambda>r. map_option resumeId (sessions (fst r) sid)) (setSessionMode a sid mode)
           = Some (Some (resumeId s))
     \<and> map_option resumeId (sessions (fst (finalize sid exitCode (a, t))) sid)
           = Some (resumeId s)"
proof -
  have one: "\<exists>s'. sessions (fst (run_lines parse sid lines (a, t))) sid = Some s'
       \<and> resumeId s' =
           (if truthy (resumeId s) then resumeId s
            else case first_resume (parsed_events parse lines) of
                   Some evt \<Rightarrow> js_get evt ''session_id''
                 | None \<Rightarrow> resumeId s)"
    unfolding run_lines_parsed by (rule run_events_resume [OF assms])
  have two: "truthy (resumeId s) \<longrightarrow>
          (\<exists>a' r args dir s'. prompt_begin spawn a sid chunks = Some (a', r)
             \<and> spawned a' = spawned a @ [(args, dir)]
             \<and> take 2 (drop 4 args) = [JStr ''--resume'', resumeId s]
             \<and> sessions a' sid = Some s' \<and> resumeId s' = resumeId s)"
  proof
    assume tr: "truthy (resumeId s)"
    from prompt_begin_session [OF assms, of spawn chunks] obtain a' r s' where
      "prompt_begin spawn a sid chunks = Some (a', r)"
      "spawned a' = spawned a @ [(spawn_args s chunks, spawn_cwd s)]"
      "sessions a' sid = Some s'" "resumeId s' = resumeId s"
      by blast
    with spawn_args_resume [OF tr, of chunks]
    show "\<exists>a' r args dir s'. prompt_begin spawn a sid chunks = Some (a', r)
             \<and> spawned a' = spawned a @ [(args, dir)]
             \<and> take 2 (drop 4 args) = [JStr ''--resume'', resumeId s]
             \<and> sessions a' sid = Some s' \<and> resumeId s' = resumeId s"
      by blast
  qed
  from one two verbs_keep_resume(1,2,4) [OF assms] show ?thesis by blast
qed

text \<open>
  Claim C6, at a fresh session and the lines of a rejected line, \<open>null\<close>, and two events
  with the identifiers \<open>A\<close> and \<open>B\<close>; at a session whose handle is \<open>A\<close>; and at a
  session whose handle holds a NUL, for which the spawn throws: the arguments were
  handed over all the same, and no child is registered.
\<close>

theorem resume_handle_first_truthy_witness:
  "sessions agent1 ''s1'' =
     Some \<lparr>cwd = None, cancelled = False, resumeId = JUndefined, modeId = ModeDefault,
           running = None\<rparr>
   \<and> (\<exists>s'. sessions (fst (run_lines toy_parse ''s1'' [''noise'', ''null'', ''{A'', ''{B'']
               (agent1, new_turn))) ''s1'' = Some s'
         \<and> resumeId s' = JStr ''A'')
   \<and> sessions agent_resumed ''s1'' =
     Some \<lparr>cwd = None, cancelled = False, resumeId = JStr ''A'', modeId = ModeDefault,
           running = None\<rparr>
   \<and> (\<exists>s'. sessions (fst (run_lines toy_parse ''s1'' [''{B'']
               (agent_resumed, new_turn))) ''s1'' = Some s'
         \<and> resumeId s' = JStr ''A'')
   \<and> (\<exists>a' r args dir s'.
         prompt_begin spawn_checked agent_resumed ''s1'' [TextChunk ''go''] = Some (a', r)
         \<and> spawned a' = spawned agent_resumed @ [(args, dir)]
         \<and> take 2 (drop 4 args) = [JStr ''--resume'', JStr ''A'']
         \<and> sessions a' ''s1'' = Some s' \<and> resumeId s' = JStr ''A'')
   \<and> map_option snd (prompt_begin spawn_checked agent_resumed ''s1'' [TextChunk ''go''])
       = Some (Inr ())
   \<and> (\<exists>a' r args dir s'.
         prompt_begin spawn_checked agent_resumed_nul ''s1'' [TextChunk ''go''] = Some (a', r)
         \<and> spawned a' = spawned agent_resumed_nul @ [(args, dir)]
         \<and> take 2 (drop 4 args) = [JStr ''--resume'', JStr [CHR ''a'', CHR 0x00, CHR ''b'']]
         \<and> sessions a' ''s1'' = Some s'
         \<and> resumeId s' = JStr [CHR ''a'', CHR 0x00, CHR ''b''])
   \<and> map_option (\<lambda>r. (snd r, map_option running (sessions (fst r) ''s1'')))
        (prompt_begin spawn_checked agent_resumed_nul ''s1'' [TextChunk ''go''])
       = Some (Inl TypeError, Some None)"
proof -
  have f1: "first_resume (parsed_events toy_parse [''noise'', ''null'', ''{A'', ''{B''])
      = Some (system_event (JStr ''A''))"
    by code_simp
  have g: "js_get (system_event (JStr ''A'')) ''session_id'' = JStr ''A''"
    by (simp add: system_event_def)
  have ok: "map_option snd (prompt_begin spawn_checked agent_resumed ''s1'' [TextChunk ''go''])
       = Some (Inr ())"
    by code_simp
  have nul: "map_option (\<lambda>r. (snd r, map_option running (sessions (fst r) ''s1'')))
        (prompt_begin spawn_checked agent_resumed_nul ''s1'' [TextChunk ''go''])
       = Some (Inl TypeError, Some None)"
    by code_simp
  from resume_handle_first_truthy [OF agent1_s1, of toy_parse "[''noise'', ''null'', ''{A'', ''{B'']" new_turn]
    resume_handle_first_truthy [OF agent_resumed_s1, of toy_parse "[''{B'']" new_turn
      spawn_checked "[TextChunk ''go'']"]
    resume_handle_first_truthy [OF agent_resumed_nul_s1, of toy_parse "[]" new_turn
      spawn_checked "[TextChunk ''go'']"]
    agent1_s1 agent_resumed_s1 f1 g ok nul
  show ?thesis by simp
qed

text \<open>
  Claim C6 as stated fails at two events of which the first carries the field
  \<open>session_id\<close> with the empty string and the second with \<open>B\<close>: the handler handles the
  first event and sets no handle from it; the handle is set from the second.
\<close>

theorem resume_handle_empty_id_counterexample:
  "js_get (system_event (JStr [])) ''session_id'' = JStr []
   \<and> \<not> mapper_throws (system_event (JStr []))
   \<and> map_option resumeId (sessions agent1 ''s1'') = Some JUndefined
   \<and> map_option resumeId
        (sessions (fst (run_events ''s1'' [system_event (JStr []), system_event (JStr ''B'')]
           (agent1, new_turn))) ''s1'') = Some (JStr ''B'')"
  by code_simp

subsection \<open>The mode of a session\<close>

text \<open>
  Claim C7. For a session of the registry, \<open>setSessionMode\<close> with a mode other than
  \<open>default\<close> and \<open>plan\<close> throws \<open>Invalid Mode\<close> and leaves the agent, and so the mode of
  the session, as it was; with \<open>default\<close> or \<open>plan\<close> it returns, stores the mode in the
  session, changes nothing else of it, and sends one \<open>current_mode_update\<close> with the
  new mode.
\<close>

theorem setSessionMode_checks_mode:
  assumes "sessions a sid = Some s"
  shows "(mode \<noteq> ''default'' \<and> mode \<noteq> ''plan'' \<longrightarrow>
            setSessionMode a sid mode = Some (a, Inl (Error ''Invalid Mode'')))
     \<and> setSessionMode a sid ''default'' =
         Some (a\<lparr>sessions := (sessions a)(sid \<mapsto> s\<lparr>modeId := ModeDefault\<rparr>),
                 client := client a @ [SessionNotification sid (CurrentModeUpdate ModeDefault)]\<rparr>,
               Inr ())
     \<and> setSessionMode a sid ''plan'' =
         Some (a\<lparr>sessions := (sessions a)(sid \<mapsto> s\<lparr>modeId := ModePlan\<rparr>),
                 client := client a @ [SessionNotification sid (CurrentModeUpdate ModePlan)]\<rparr>,
               Inr ())"
  using assms by (simp add: setSessionMode_def lookup_session_def)

text \<open>Claim C7, at a fresh session and the modes \<open>architect\<close> and \<open>plan\<close>.\<close>

theorem setSessionMode_checks_mode_witness:
  "sessions agent1 ''s1'' =
     Some \<lparr>cwd = None, cancelled = False, resumeId = JUndefined, modeId = ModeDefault,
           running = None\<rparr>
   \<and> ''architect'' \<noteq> ''default'' \<and> ''architect'' \<noteq> ''plan''
   \<and> setSessionMode agent1 ''s1'' ''architect'' = Some (agent1, Inl (Error ''Invalid Mode''))
   \<and> map_option (\<lambda>r. (map_option modeId (sessions (fst r) ''s1''), client (fst r), snd r))
         (setSessionMode agent1 ''s1'' ''plan'')
       = Some (Some ModePlan, [SessionNotification ''s1'' (CurrentModeUpdate ModePlan)], Inr ())"
proof -
  have c: "client agent1 = []" by (simp add: agent1_def newSession_def empty_agent_def)
  from setSessionMode_checks_mode [OF agent1_s1, of "''architect''"] agent1_s1 c
  show ?thesis by simp
qed

subsection \<open>The output of a shell tool\<close>

text \<open>
  Claim C8, as the code has it. Take a \<open>completed\<close> event of a shell tool
  (\<open>bashToolCall\<close>, \<open>shellToolCall\<close>). When its output converts to a text, the mapper
  returns one update with one content block. If the text is empty or white space only
  and the result has no numeric \<open>exitCode\<close>, the text of the block is \<open>(no output)\<close>
  between the lines of the code fence, with no \<open>Exit code:\<close> line. If \<open>exitCode\<close> is a
  number, the first line inside the fence is \<open>Exit code: N\<close>, with the number as the
  runtime prints it, and the output, or \<open>(no output)\<close>, follows it. When the output does
  not convert (an object with a key \<open>toString\<close> of its own, or an array that holds
  one), the mapper throws a \<open>TypeError\<close>, with an exit code or without, and the line
  handler skips the event and changes nothing.
\<close>

theorem shell_output_text:
  assumes "js_get evt ''type'' = JStr ''tool_call''"
    and "js_get evt ''subtype'' = JStr ''completed''"
    and "tool_kind_key evt = Some ''bashToolCall'' \<or> tool_kind_key evt = Some ''shellToolCall''"
  shows "(\<forall>outText.
        js_String (coalesce (js_get (tool_result evt) ''output'')
           (coalesce (js_get (tool_result evt) ''stdout'') (JStr []))) = Inr outText \<longrightarrow>
        (\<exists>text.
           mapCursorEventToAcp sessionId evt lastText =
             Inr [SessionNotification sessionId
                    (ToolCallUpdate (call_id evt) (if isError evt then Failed else Completed)
                       (Some (safeJson (tool_result evt)))
                       (completed_locations (tool_result evt) (tool_args evt))
                       (Some [Content (JStr text)]))]
           \<and> (trim outText = [] \<and> \<not> is_number (js_get (tool_result evt) ''exitCode'')
                \<longrightarrow> text = ''```'' @ [CHR 0x0A] @ ''(no output)'' @ [CHR 0x0A] @ ''```'')
           \<and> (\<forall>n. js_get (tool_result evt) ''exitCode'' = JNum n
                \<longrightarrow> text = ''```'' @ [CHR 0x0A] @ ''Exit code: '' @ n @ [CHR 0x0A]
                          @ (if trim outText = [] then ''(no output)'' else outText)
                          @ [CHR 0x0A] @ ''```'')))
     \<and> (unprintable (coalesce (js_get (tool_result evt) ''output'')
            (coalesce (js_get (tool_result evt) ''stdout'') (JStr []))) \<longrightarrow>
          mapCursorEventToAcp sessionId evt lastText = Inl TypeError
          \<and> on_event sessionId evt st = st)"
proof -
  let ?r = "tool_result evt"
  let ?out = "coalesce (js_get ?r ''output'') (coalesce (js_get ?r ''stdout'') (JStr []))"
  have printable: "\<exists>text.
           mapCursorEventToAcp sessionId evt lastText =
             Inr [SessionNotification sessionId
                    (ToolCallUpdate (call_id evt) (if isError evt then Failed else Completed)
                       (Some (safeJson ?r)) (completed_locations ?r (tool_args evt))
                       (Some [Content (JStr text)]))]
           \<and> (trim outText = [] \<and> \<not> is_number (js_get ?r ''exitCode'')
                \<longrightarrow> text = ''```'' @ [CHR 0x0A] @ ''(no output)'' @ [CHR 0x0A] @ ''```'')
           \<and> (\<forall>n. js_get ?r ''exitCode'' = JNum n
                \<longrightarrow> text = ''```'' @ [CHR 0x0A] @ ''Exit code: '' @ n @ [CHR 0x0A]
                          @ (if trim outText = [] then ''(no output)'' else outText)
                          @ [CHR 0x0A] @ ''```'')"
    if out: "js_String ?out = Inr outText" for outText
  proof -
    let ?text = "''```'' @ [CHR 0x0A]
       @ ((case (case js_get ?r ''exitCode'' of JNum n \<Rightarrow> Some n | _ \<Rightarrow> None) of
             Some n \<Rightarrow> ''Exit code: '' @ n @ [CHR 0x0A] | None \<Rightarrow> [])
          @ (if length (trim outText) = 0 then ''(no output)'' else outText))
       @ [CHR 0x0A] @ ''```''"
    have st: "shell_text ?r = Inr ?text"
      using out by (simp add: shell_text_def Let_def)
    have cc: "completed_content (tool_kind_key evt) (tool_args evt) ?r
        = Inr (Some [Content (JStr ?text)])"
      using assms(3) st by (auto simp: completed_content_def)
    have m: "mapCursorEventToAcp sessionId evt lastText =
         Inr [SessionNotification sessionId
                (ToolCallUpdate (call_id evt) (if isError evt then Failed else Completed)
                   (Some (safeJson ?r)) (completed_locations ?r (tool_args evt))
                   (Some [Content (JStr ?text)]))]"
      using assms(1,2) cc
      by (simp add: mapCursorEventToAcp_def js_prop_type completed_notes_def Let_def)
    have a: "trim outText = [] \<and> \<not> is_number (js_get ?r ''exitCode'')
            \<longrightarrow> ?text = ''```'' @ [CHR 0x0A] @ ''(no output)'' @ [CHR 0x0A] @ ''```''"
      by (cases "js_get ?r ''exitCode''") simp_all
    have b: "\<forall>n. js_get ?r ''exitCode'' = JNum n
            \<longrightarrow> ?text = ''```'' @ [CHR 0x0A] @ ''Exit code: '' @ n @ [CHR 0x0A]
                      @ (if trim outText = [] then ''(no output)'' else outText)
                      @ [CHR 0x0A] @ ''```''"
      by simp
    from m a b show ?thesis by blast
  qed
  have throws: "mapCursorEventToAcp sessionId evt lastText = Inl TypeError
          \<and> on_event sessionId evt st = st"
    if un: "unprintable ?out"
  proof -
    have "content_throws (tool_kind_key evt) (tool_args evt) ?r"
      using assms(3) un by (auto simp: content_throws_def unprintable_coalesce)
    from completed_throws_skipped [OF assms(1,2) this] show ?thesis .
  qed
  from printable throws show ?thesis by blast
qed

text \<open>Claim C8, at a shell tool that printed two spaces and gave no exit code, at one
  that printed nothing and exited with 1, and at one whose \<open>output\<close> is the object
  \<open>{"toString": "a.txt"}\<close>, which the line handler skips.\<close>

theorem shell_output_text_witness:
  "js_get shell_completed_blank ''type'' = JStr ''tool_call''
   \<and> js_get shell_completed_blank ''subtype'' = JStr ''completed''
   \<and> tool_kind_key shell_completed_blank = Some ''shellToolCall''
   \<and> js_String (coalesce (js_get (tool_result shell_completed_blank) ''output'')
         (coalesce (js_get (tool_result shell_completed_blank) ''stdout'') (JStr []))) = Inr ''  ''
   \<and> trim ''  '' = []
   \<and> \<not> is_number (js_get (tool_result shell_completed_blank) ''exitCode'')
   \<and> mapCursorEventToAcp ''s1'' shell_completed_blank [] =
       Inr [SessionNotification ''s1''
              (ToolCallUpdate (JStr ''c2'') Completed (Some (JObj [(''stdout'', JStr ''  '')])) None
                 (Some [Content (JStr (''```'' @ [CHR 0x0A] @ ''(no output)'' @ [CHR 0x0A] @ ''```''))]))]
   \<and> js_get shell_completed_exit ''type'' = JStr ''tool_call''
   \<and> js_get shell_completed_exit ''subtype'' = JStr ''completed''
   \<and> tool_kind_key shell_completed_exit = Some ''bashToolCall''
   \<and> js_String (coalesce (js_get (tool_result shell_completed_exit) ''output'')
         (coalesce (js_get (tool_result shell_completed_exit) ''stdout'') (JStr []))) = Inr []
   \<and> js_get (tool_result shell_completed_exit) ''exitCode'' = JNum ''1''
   \<and> mapCursorEventToAcp ''s1'' shell_completed_exit [] =
       Inr [SessionNotification ''s1''
              (ToolCallUpdate (JStr ''c2'') Completed
                 (Some (JObj [(''output'', JStr []), (''exitCode'', JNum ''1'')])) None
                 (Some [Content (JStr (''```'' @ [CHR 0x0A] @ ''Exit code: 1'' @ [CHR 0x0A]
                    @ ''(no output)'' @ [CHR 0x0A] @ ''```''))]))]
   \<and> js_get shell_completed_object_output ''type'' = JStr ''tool_call''
   \<and> js_get shell_completed_object_output ''subtype'' = JStr ''completed''
   \<and> tool_kind_key shell_completed_object_output = Some ''bashToolCall''
   \<and> unprintable (coalesce (js_get (tool_result shell_completed_object_output) ''output'')
         (coalesce (js_get (tool_result shell_completed_object_output) ''stdout'') (JStr [])))
   \<and> on_event ''s1'' shell_completed_object_output (agent1, new_turn) = (agent1, new_turn)"
proof -
  have e: "js_get shell_completed_object_output ''type'' = JStr ''tool_call''"
    "js_get shell_completed_object_output ''subtype'' = JStr ''completed''"
    "tool_kind_key shell_completed_object_output = Some ''bashToolCall''
     \<or> tool_kind_key shell_completed_object_output = Some ''shellToolCall''"
    by code_simp+
  have u: "tool_kind_key shell_completed_object_output = Some ''bashToolCall''"
    "unprintable (coalesce (js_get (tool_result shell_completed_object_output) ''output'')
         (coalesce (js_get (tool_result shell_completed_object_output) ''stdout'') (JStr [])))"
    by code_simp+
  have three: "on_event ''s1'' shell_completed_object_output (agent1, new_turn)
      = (agent1, new_turn)"
    using shell_output_text [OF e, where sessionId = "''s1''" and st = "(agent1, new_turn)"] u(2)
    by blast
  have h: "js_get shell_completed_blank ''type'' = JStr ''tool_call''"
    "js_get shell_completed_blank ''subtype'' = JStr ''completed''"
    "tool_kind_key shell_completed_blank = Some ''bashToolCall''
     \<or> tool_kind_key shell_completed_blank = Some ''shellToolCall''"
    by code_simp+
  have o: "js_String (coalesce (js_get (tool_result shell_completed_blank) ''output'')
         (coalesce (js_get (tool_result shell_completed_blank) ''stdout'') (JStr []))) = Inr ''  ''"
    by code_simp
  have v: "tool_kind_key shell_completed_blank = Some ''shellToolCall''"
    "trim ''  '' = []"
    "\<not> is_number (js_get (tool_result shell_completed_blank) ''exitCode'')"
    "call_id shell_completed_blank = JStr ''c2''"
    "isError shell_completed_blank = False"
    "safeJson (tool_result shell_completed_blank) = JObj [(''stdout'', JStr ''  '')]"
    "completed_locations (tool_result shell_completed_blank) (tool_args shell_completed_blank) = None"
    by code_simp+
  have k: "js_get shell_completed_exit ''type'' = JStr ''tool_call''"
    "js_get shell_completed_exit ''subtype'' = JStr ''completed''"
    "tool_kind_key shell_completed_exit = Some ''bashToolCall''
     \<or> tool_kind_key shell_completed_exit = Some ''shellToolCall''"
    by code_simp+
  have q: "js_String (coalesce (js_get (tool_result shell_completed_exit) ''output'')
         (coalesce (js_get (tool_result shell_completed_exit) ''stdout'') (JStr []))) = Inr []"
    by code_simp
  have w: "tool_kind_key shell_completed_exit = Some ''bashToolCall''"
    "js_get (tool_result shell_completed_exit) ''exitCode'' = JNum ''1''"
    "call_id shell_completed_exit = JStr ''c2''"
    "isError shell_completed_exit = False"
    "safeJson (tool_result shell_completed_exit)
       = JObj [(''output'', JStr []), (''exitCode'', JNum ''1'')]"
    "completed_locations (tool_result shell_completed_exit) (tool_args shell_completed_exit) = None"
    "trim [] = []"
    by code_simp+
  have one: "mapCursorEventToAcp ''s1'' shell_completed_blank [] =
       Inr [SessionNotification ''s1''
              (ToolCallUpdate (JStr ''c2'') Completed (Some (JObj [(''stdout'', JStr ''  '')])) None
                 (Some [Content (JStr (''```'' @ [CHR 0x0A] @ ''(no output)'' @ [CHR 0x0A] @ ''```''))]))]"
    using shell_output_text [OF h, of "''s1''" "[]"] o v by auto
  have two: "mapCursorEventToAcp ''s1'' shell_completed_exit [] =
       Inr [SessionNotification ''s1''
              (ToolCallUpdate (JStr ''c2'') Completed
                 (Some (JObj [(''output'', JStr []), (''exitCode'', JNum ''1'')])) None
                 (Some [Content (JStr (''```'' @ [CHR 0x0A] @ ''Exit code: 1'' @ [CHR 0x0A]
                    @ ''(no output)'' @ [CHR 0x0A] @ ''```''))]))]"
    using shell_output_text [OF k, of "''s1''" "[]"] q w by auto
  from one two three h(1,2) o v(1,2,3) k(1,2) q w(1,2) e(1,2) u show ?thesis by simp
qed

text \<open>
  Claim C8 as stated fails at a shell tool that exited with 3 and whose \<open>output\<close> is the
  object \<open>{"toString": "a.txt"}\<close>: a numeric exit code is present, the conversion of
  the output throws, and there is no text with an \<open>Exit code:\<close> line, nor any
  notification.
\<close>

theorem shell_object_output_counterexample:
  "js_get shell_completed_object_output ''type'' = JStr ''tool_call''
   \<and> js_get shell_completed_object_output ''subtype'' = JStr ''completed''
   \<and> tool_kind_key shell_completed_object_output = Some ''bashToolCall''
   \<and> js_get (tool_result shell_completed_object_output) ''exitCode'' = JNum ''3''
   \<and> mapCursorEventToAcp ''s1'' shell_completed_object_output [] = Inl TypeError"
  by code_simp

subsection \<open>Throws and the line handler\<close>

text \<open>
  Claim C9, as the code has it. The kind of a tool and the locations have no operation
  that throws, and the search summary catches what its conversion throws and is then
  absent. The title throws a \<open>TypeError\<close> exactly when \<open>title_throws\<close> holds. The mapper
  throws a \<open>TypeError\<close> exactly when \<open>mapper_throws\<close> holds: the event is \<open>null\<close>, or the
  text of an assistant event is truthy and no string, or the title of a started tool or
  the content of a completed one cannot be converted; otherwise it returns at most two
  notifications. The line handler catches every throw: for a line that \<open>JSON.parse\<close>
  rejects and for an event on which the mapper throws it sends nothing and changes
  nothing, and the next line is handled as usual. An event of a type that the mapper
  does not know gives no notification.
\<close>

theorem line_handler_never_aborts:
  "((mapCursorEventToAcp sid evt lastText = Inl e) = (e = TypeError \<and> mapper_throws evt))
   \<and> (\<not> mapper_throws evt \<longrightarrow>
        (\<exists>ns. mapCursorEventToAcp sid evt lastText = Inr ns \<and> length ns \<le> 2))
   \<and> ((buildToolTitle kind args = Inl e) = (e = TypeError \<and> title_throws kind args))
   \<and> ((summarizeSearchResult toolKindKey args result = None)
        = (toolKindKey \<noteq> Some ''grepToolCall'' \<and> toolKindKey \<noteq> Some ''globToolCall''
           \<or> unprintable (js_get args ''pattern'')))
   \<and> (parse line = Inl e' \<longrightarrow> on_line parse sid line st = st)
   \<and> (parse line = Inr evt \<and> mapper_throws evt \<longrightarrow> on_line parse sid line st = st)
   \<and> (\<not> nullish evt \<and> js_get evt ''type'' \<noteq> JStr ''assistant''
        \<and> js_get evt ''type'' \<noteq> JStr ''tool_call''
        \<longrightarrow> mapCursorEventToAcp sid evt lastText = Inr [])"
proof -
  have r: "\<not> mapper_throws evt \<longrightarrow>
        (\<exists>ns. mapCursorEventToAcp sid evt lastText = Inr ns \<and> length ns \<le> 2)"
    using mapper_returns [of evt sid lastText] mapper_at_most_two [of sid evt lastText] by blast
  have l: "parse line = Inr evt \<and> mapper_throws evt \<longrightarrow> on_line parse sid line st = st"
    by (simp add: on_line_def on_event_skip)
  from r l show ?thesis
    using mapper_throws_iff [of sid evt lastText e] buildToolTitle_throws [of kind args e]
      summarize_None [of toolKindKey args result] on_line_skip [of parse line e' sid st]
      mapper_other_type [of evt sid lastText]
    by blast
qed

text \<open>Claim C9, at the line \<open>null\<close>, at a line that is no JSON, and at a system event.\<close>

theorem line_handler_never_aborts_witness:
  "mapper_throws JNull
   \<and> toy_parse ''null'' = Inr JNull
   \<and> on_line toy_parse ''s1'' ''null'' (agent1, new_turn) = (agent1, new_turn)
   \<and> toy_parse ''noise'' = Inl SyntaxError
   \<and> on_line toy_parse ''s1'' ''noise'' (agent1, new_turn) = (agent1, new_turn)
   \<and> \<not> mapper_throws (system_event (JStr ''A''))
   \<and> \<not> nullish (system_event (JStr ''A''))
   \<and> js_get (system_event (JStr ''A'')) ''type'' \<noteq> JStr ''assistant''
   \<and> js_get (system_event (JStr ''A'')) ''type'' \<noteq> JStr ''tool_call''
   \<and> mapCursorEventToAcp ''s1'' (system_event (JStr ''A'')) [] = Inr []"
proof -
  have h: "mapper_throws JNull" "toy_parse ''null'' = Inr JNull"
    "toy_parse ''noise'' = Inl SyntaxError"
    "\<not> mapper_throws (system_event (JStr ''A''))"
    "\<not> nullish (system_event (JStr ''A''))"
    "js_get (system_event (JStr ''A'')) ''type'' \<noteq> JStr ''assistant''"
    "js_get (system_event (JStr ''A'')) ''type'' \<noteq> JStr ''tool_call''"
    by code_simp+
  from line_handler_never_aborts [where sid = "''s1''" and evt = JNull and lastText = "[]"
      and parse = toy_parse and line = "''null''" and st = "(agent1, new_turn)"]
    line_handler_never_aborts [where sid = "''s1''" and evt = "system_event (JStr ''A'')"
      and lastText = "[]" and parse = toy_parse and line = "''noise''"
      and e' = SyntaxError and st = "(agent1, new_turn)"]
    h
  show ?thesis by simp
qed

text \<open>
  Claim C9 as stated fails for the mapper at an assistant event whose text is the number
  5: the text is truthy and differs from \<open>lastAssistantText\<close>, a number has no
  \<open>startsWith\<close>, and the call throws.
\<close>

theorem mapper_number_text_counterexample:
  "js_get assistant_number_text ''type'' = JStr ''assistant''
   \<and> assistant_text assistant_number_text = JNum ''5''
   \<and> mapCursorEventToAcp ''s1'' assistant_number_text [] = Inl TypeError"
  by code_simp

subsection \<open>Other subtypes of a tool call\<close>

text \<open>
  Claim C10. For a \<open>tool_call\<close> event whose subtype is neither \<open>started\<close> nor
  \<open>completed\<close>, a missing subtype included, the mapper returns no notification.
\<close>

theorem tool_call_other_subtype_silent:
  assumes "js_get evt ''type'' = JStr ''tool_call''"
    and "js_get evt ''subtype'' \<noteq> JStr ''started''"
    and "js_get evt ''subtype'' \<noteq> JStr ''completed''"
  shows "mapCursorEventToAcp sessionId evt lastText = Inr []"
  using assms by (simp add: mapCursorEventToAcp_def js_prop_type)

text \<open>Claim C10, at a \<open>tool_call\<close> event with the subtype \<open>progress\<close>.\<close>

theorem tool_call_other_subtype_silent_witness:
  "js_get tool_call_progress ''type'' = JStr ''tool_call''
   \<and> js_get tool_call_progress ''subtype'' \<noteq> JStr ''started''
   \<and> js_get tool_call_progress ''subtype'' \<noteq> JStr ''completed''
   \<and> mapCursorEventToAcp ''s1'' tool_call_progress ''seen'' = Inr []"
proof -
  have h: "js_get tool_call_progress ''type'' = JStr ''tool_call''"
    "js_get tool_call_progress ''subtype'' \<noteq> JStr ''started''"
    "js_get tool_call_progress ''subtype'' \<noteq> JStr ''completed''"
    by (simp_all add: tool_call_progress_def)
  from h tool_call_other_subtype_silent [OF h] show ?thesis by simp
qed

end
